theory Spec2Isabelle
  imports Complex_Main
begin

section \<open>Strings\<close>

text \<open>
  Source strings are modelled as \<^typ>\<open>string\<close>. The JavaScript string methods used by
  the controllers are written out for ASCII text: \<open>toLowerCase\<close>/\<open>toUpperCase\<close> map the
  26 letters, \<open>trim\<close> strips the ASCII white space (codes 9 to 13 and 32) at both ends,
  \<open>includes\<close> is the test for a contiguous substring. Characters outside ASCII are left
  as they are.
\<close>

definition lowerChar :: "char \<Rightarrow> char" where
  "lowerChar c = (let n = (of_char c :: nat) in if 65 \<le> n \<and> n \<le> 90 then char_of (n + 32) else c)"

definition upperChar :: "char \<Rightarrow> char" where
  "upperChar c = (let n = (of_char c :: nat) in if 97 \<le> n \<and> n \<le> 122 then char_of (n - 32) else c)"

definition toLowerCase :: "string \<Rightarrow> string" where
  "toLowerCase s = map lowerChar s"

definition toUpperCase :: "string \<Rightarrow> string" where
  "toUpperCase s = map upperChar s"

definition isSpace :: "char \<Rightarrow> bool" where
  "isSpace c = (let n = (of_char c :: nat) in (9 \<le> n \<and> n \<le> 13) \<or> n = 32)"

definition isDigit :: "char \<Rightarrow> bool" where
  "isDigit c = (let n = (of_char c :: nat) in 48 \<le> n \<and> n \<le> 57)"

definition trim :: "string \<Rightarrow> string" where
  "trim s = rev (dropWhile isSpace (rev (dropWhile isSpace s)))"

fun includesStr :: "string \<Rightarrow> string \<Rightarrow> bool" where
  "includesStr [] t = (t = [])"
| "includesStr (c # cs) t = (take (length t) (c # cs) = t \<or> includesStr cs t)"

section \<open>Data model\<close>

text \<open>
  Primary keys (uuid strings in the source) are natural numbers drawn from the counter
  \<open>nextId\<close> of the store. Timestamps are milliseconds since the epoch, as
  \<open>Date.getTime()\<close> reads them. The arithmetic of the handlers is exact; the range of the integer columns is
  checked where a value is written.
\<close>

datatype alert_status = OPEN | ACK | RESOLVED

datatype mov_tipo = Entrada | Salida | Ajuste

datatype error =
    INV_NOT_FOUND | PRODUCTO_ES_FLETE | STOCK_NEGATIVO | PRODUCTO_NOT_FOUND
  | P2002 | P2025 | NOT_FOUND_404 | TypeError | EXCEL_VACIO | OUT_OF_RANGE

datatype reason = inventario_not_found | producto_es_flete | rule_disabled | cooldown

datatype eval_result = Noop "reason option" | Created nat | Resent nat | Resolved nat

record producto =
  p_id :: nat
  p_sku :: "string option"
  p_nombre :: string
  p_tipo :: string
  precioGeneral :: int
  precioConDescto :: int
  p_fotoUrl :: "string option"
  unidadMedida :: string

record inventario =
  i_id :: nat
  productoId :: nat
  codigo :: "string option"
  stock :: int
  minimo :: int
  ubicacion :: "string option"

text \<open>
  Modelled from the spec: the tables of rules, alerts and notifications, whose schema is
  not among the sources. Their columns are the ones the controllers read and write and
  the data model of the specification lists; \<open>openedAt\<close> of an alert is set by the store
  when the row is created.
\<close>

record stockCriticalRule =
  r_inventarioId :: nat
  enabled :: bool
  thresholdOverride :: "int option"
  cooldownMinutes :: "int option"
  lastNotifiedAt :: "int option"

record stockAlert =
  a_id :: nat
  a_inventarioId :: nat
  threshold :: int
  stockAtAlert :: int
  status :: alert_status
  isActive :: bool
  openedAt :: "int option"
  lastSentAt :: "int option"
  resolvedAt :: "int option"
  ackAt :: "int option"
  channel :: string
  meta :: "nat \<times> string \<times> string option"

text \<open>
  A notification row keeps the data its title and detail are rendered from: whether it
  is the reminder of a resend, the product name, the stock and the threshold.
\<close>

record ecommerceNotificacion =
  n_tipo :: string
  referenciaTabla :: string
  referenciaId :: nat
  recordatorio :: bool
  n_productoNombre :: string
  n_stock :: int
  n_threshold :: int
  leido :: bool

record stockMovimiento =
  m_inventarioId :: nat
  m_tipo :: mov_tipo
  cantidad :: int
  nota :: "string option"

record db =
  productos :: "producto list"
  inventarios :: "inventario list"
  criticalRules :: "stockCriticalRule list"
  alerts :: "stockAlert list"
  notificaciones :: "ecommerceNotificacion list"
  movimientos :: "stockMovimiento list"
  nextId :: nat

text \<open>
  The columns \<open>stock\<close>, \<open>minimo\<close>, \<open>cantidad\<close> and the two prices are \<open>INTEGER\<close> in
  the migrations: a write of a value outside the signed 32-bit range fails. The handlers
  have no case for that failure and answer with an internal error; it is the tag
  \<open>OUT_OF_RANGE\<close> here, raised before the statement reaches the tables.
\<close>

definition int4 :: "int \<Rightarrow> bool" where
  "int4 n = (- 2147483648 \<le> n \<and> n \<le> 2147483647)"

section \<open>Store access\<close>

definition findInventario :: "db \<Rightarrow> nat \<Rightarrow> inventario option" where
  "findInventario tx iid = find (\<lambda>i. i_id i = iid) (inventarios tx)"

definition findProducto :: "db \<Rightarrow> nat \<Rightarrow> producto option" where
  "findProducto tx pid = find (\<lambda>p. p_id p = pid) (productos tx)"

definition findRule :: "db \<Rightarrow> nat \<Rightarrow> stockCriticalRule option" where
  "findRule tx iid = find (\<lambda>r. r_inventarioId r = iid) (criticalRules tx)"

definition findAlert :: "db \<Rightarrow> nat \<Rightarrow> stockAlert option" where
  "findAlert tx aid = find (\<lambda>a. a_id a = aid) (alerts tx)"

text \<open>
  \<open>orderBy: { openedAt: "desc" }\<close>: the row that comes first in descending order of
  \<open>openedAt\<close>, a null date before every date (the store's order for \<open>DESC\<close>); among
  equal dates the row stored first.
\<close>

definition openedBefore :: "int option \<Rightarrow> int option \<Rightarrow> bool" where
  "openedBefore x y =
     (case y of None \<Rightarrow> x \<noteq> None | Some t \<Rightarrow> (case x of None \<Rightarrow> False | Some s \<Rightarrow> s < t))"

fun newest :: "stockAlert list \<Rightarrow> stockAlert option" where
  "newest [] = None"
| "newest (a # as) =
     (case newest as of
        None \<Rightarrow> Some a
      | Some b \<Rightarrow> if openedBefore (openedAt a) (openedAt b) then Some b else Some a)"

definition activeAlerts :: "db \<Rightarrow> nat \<Rightarrow> stockAlert list" where
  "activeAlerts tx iid = filter (\<lambda>a. a_inventarioId a = iid \<and> isActive a) (alerts tx)"

definition findActiveAlert :: "db \<Rightarrow> nat \<Rightarrow> stockAlert option" where
  "findActiveAlert tx iid = newest (activeAlerts tx iid)"

definition updateAlert :: "db \<Rightarrow> nat \<Rightarrow> (stockAlert \<Rightarrow> stockAlert) \<Rightarrow> db" where
  "updateAlert tx aid f = tx\<lparr>alerts := map (\<lambda>a. if a_id a = aid then f a else a) (alerts tx)\<rparr>"

definition updateRule :: "db \<Rightarrow> nat \<Rightarrow> (stockCriticalRule \<Rightarrow> stockCriticalRule) \<Rightarrow> db" where
  "updateRule tx iid f =
     tx\<lparr>criticalRules := map (\<lambda>r. if r_inventarioId r = iid then f r else r) (criticalRules tx)\<rparr>"

definition createNotificacion :: "db \<Rightarrow> ecommerceNotificacion \<Rightarrow> db" where
  "createNotificacion tx n = tx\<lparr>notificaciones := notificaciones tx @ [n]\<rparr>"

text \<open>
  \<open>prisma.$transaction\<close>: the body runs on the store; when it throws, the store is
  left as it was before the body started.
\<close>

definition transaction :: "(db \<Rightarrow> error + ('a \<times> db)) \<Rightarrow> db \<Rightarrow> (error + 'a) \<times> db" where
  "transaction body d =
     (case body d of Inl e \<Rightarrow> (Inl e, d) | Inr (r, d') \<Rightarrow> (Inr r, d'))"

section \<open>The stock-critical evaluator\<close>

definition isFleteTipo :: "string option \<Rightarrow> bool" where
  "isFleteTipo tipo = includesStr (toLowerCase (case tipo of None \<Rightarrow> [] | Some s \<Rightarrow> s)) ''flet''"

definition DEFAULT_COOLDOWN_MINUTES :: int where
  "DEFAULT_COOLDOWN_MINUTES = 360"

text \<open>\<open>rule?.thresholdOverride ?? inv.minimo ?? 0\<close>; the column \<open>minimo\<close> is not null.\<close>

definition effectiveThreshold :: "stockCriticalRule option \<Rightarrow> inventario \<Rightarrow> int" where
  "effectiveThreshold rule invr =
     (case (case rule of None \<Rightarrow> None | Some r \<Rightarrow> thresholdOverride r) of
        Some t \<Rightarrow> t
      | None \<Rightarrow> minimo invr)"

definition effectiveCooldown :: "stockCriticalRule option \<Rightarrow> int" where
  "effectiveCooldown rule =
     (case (case rule of None \<Rightarrow> None | Some r \<Rightarrow> cooldownMinutes r) of
        Some c \<Rightarrow> c
      | None \<Rightarrow> DEFAULT_COOLDOWN_MINUTES)"

text \<open>\<open>rule?.lastNotifiedAt ?? activeAlert.lastSentAt ?? activeAlert.openedAt\<close>\<close>

definition lastNotified :: "stockCriticalRule option \<Rightarrow> stockAlert \<Rightarrow> int option" where
  "lastNotified rule activeAlert =
     (case (case rule of None \<Rightarrow> None | Some r \<Rightarrow> lastNotifiedAt r) of
        Some t \<Rightarrow> Some t
      | None \<Rightarrow> (case lastSentAt activeAlert of Some t \<Rightarrow> Some t | None \<Rightarrow> openedAt activeAlert))"

text \<open>\<open>!last || last.getTime() < now.getTime() - cooldownMs\<close>\<close>

definition canResend :: "int option \<Rightarrow> int \<Rightarrow> int \<Rightarrow> bool" where
  "canResend lastAt now cooldownMin =
     (case lastAt of None \<Rightarrow> True | Some l \<Rightarrow> l < now - cooldownMin * 60 * 1000)"

definition stampRule :: "stockCriticalRule option \<Rightarrow> db \<Rightarrow> nat \<Rightarrow> int \<Rightarrow> db" where
  "stampRule rule tx iid now =
     (if rule \<noteq> None then updateRule tx iid (\<lambda>r. r\<lparr>lastNotifiedAt := Some now\<rparr>) else tx)"

definition stockCriticoNotificacion ::
  "nat \<Rightarrow> bool \<Rightarrow> string \<Rightarrow> int \<Rightarrow> int \<Rightarrow> ecommerceNotificacion" where
  "stockCriticoNotificacion iid again nombre stk thr =
     \<lparr>n_tipo = ''STOCK_CRITICO'', referenciaTabla = ''Inventario'', referenciaId = iid,
      recordatorio = again, n_productoNombre = nombre, n_stock = stk, n_threshold = thr,
      leido = False\<rparr>"

text \<open>
  \<open>evaluateStockCriticalTx\<close> of the inventory controller. \<open>inv.producto.nombre\<close> is read
  without a guard when an alert is created or resent: on an inventory whose product row
  is missing that is a \<open>TypeError\<close>. A created alert gets the next key of the store and
  the current time as \<open>openedAt\<close>. The source's \<open>inv\<close> and \<open>prod\<close> are \<open>invr\<close> and
  \<open>prd\<close> here. The module \<open>services/stockCritical.service.ts\<close> holds another
  evaluator, keyed on the status \<open>OPEN\<close>; no handler among the sources calls it, and
  it is not part of this model.
\<close>

definition evaluateStockCriticalTx :: "db \<Rightarrow> nat \<Rightarrow> int \<Rightarrow> error + (eval_result \<times> db)" where
  "evaluateStockCriticalTx tx inventarioId now =
     (case findInventario tx inventarioId of
        None \<Rightarrow> Inr (Noop (Some inventario_not_found), tx)
      | Some invr \<Rightarrow>
          let prd = findProducto tx (productoId invr) in
          if isFleteTipo (map_option p_tipo prd) then Inr (Noop (Some producto_es_flete), tx)
          else
            let rule = findRule tx inventarioId in
            if (case rule of None \<Rightarrow> False | Some r \<Rightarrow> \<not> enabled r)
            then Inr (Noop (Some rule_disabled), tx)
            else
              let thr = effectiveThreshold rule invr;
                  cooldownMin = effectiveCooldown rule;
                  isCritical = (stock invr \<le> thr);
                  activeAlert = findActiveAlert tx inventarioId
              in
              if isCritical then
                (case activeAlert of
                   None \<Rightarrow>
                     (case prd of
                        None \<Rightarrow> Inl TypeError
                      | Some p \<Rightarrow>
                          let alert = \<lparr>a_id = nextId tx, a_inventarioId = inventarioId,
                                threshold = thr, stockAtAlert = stock invr, status = OPEN,
                                isActive = True, openedAt = Some now, lastSentAt = Some now,
                                resolvedAt = None, ackAt = None, channel = ''system'',
                                meta = (productoId invr, p_nombre p, p_sku p)\<rparr>;
                              tx1 = tx\<lparr>alerts := alerts tx @ [alert], nextId := nextId tx + 1\<rparr>;
                              tx2 = stampRule rule tx1 inventarioId now;
                              tx3 = createNotificacion tx2
                                (stockCriticoNotificacion inventarioId False (p_nombre p) (stock invr) thr)
                          in Inr (Created (a_id alert), tx3))
                 | Some a \<Rightarrow>
                     if \<not> canResend (lastNotified rule a) now cooldownMin
                     then Inr (Noop (Some cooldown), tx)
                     else
                       let tx1 = updateAlert tx (a_id a)
                                   (\<lambda>x. x\<lparr>lastSentAt := Some now, stockAtAlert := stock invr,
                                          threshold := thr\<rparr>);
                           tx2 = stampRule rule tx1 inventarioId now
                       in
                       (case prd of
                          None \<Rightarrow> Inl TypeError
                        | Some p \<Rightarrow>
                            Inr (Resent (a_id a),
                                 createNotificacion tx2
                                   (stockCriticoNotificacion inventarioId True (p_nombre p)
                                      (stock invr) thr))))
              else
                (case activeAlert of
                   Some a \<Rightarrow>
                     Inr (Resolved (a_id a),
                          updateAlert tx (a_id a)
                            (\<lambda>x. x\<lparr>status := RESOLVED, isActive := False, resolvedAt := Some now\<rparr>))
                 | None \<Rightarrow> Inr (Noop None, tx)))"

definition evaluateStockCritical :: "db \<Rightarrow> nat \<Rightarrow> int \<Rightarrow> (error + eval_result) \<times> db" where
  "evaluateStockCritical d inventarioId now =
     transaction (\<lambda>tx. evaluateStockCriticalTx tx inventarioId now) d"

section \<open>Inventory rows\<close>

text \<open>
  The data of an \<open>inventario.update\<close>: a field that is \<open>undefined\<close> in the source is
  \<open>None\<close> here and leaves the column as it is; \<open>codigo\<close> and \<open>ubicacion\<close> can be set
  to null (\<open>Some None\<close>).
\<close>

record inventarioData =
  u_codigo :: "string option option"
  u_ubicacion :: "string option option"
  u_stock :: "int option"
  u_minimo :: "int option"

definition noData :: inventarioData where
  "noData = \<lparr>u_codigo = None, u_ubicacion = None, u_stock = None, u_minimo = None\<rparr>"

definition applyData :: "inventarioData \<Rightarrow> inventario \<Rightarrow> inventario" where
  "applyData dat i =
     i\<lparr>codigo := (case u_codigo dat of None \<Rightarrow> codigo i | Some c \<Rightarrow> c),
       ubicacion := (case u_ubicacion dat of None \<Rightarrow> ubicacion i | Some u \<Rightarrow> u),
       stock := (case u_stock dat of None \<Rightarrow> stock i | Some n \<Rightarrow> n),
       minimo := (case u_minimo dat of None \<Rightarrow> minimo i | Some n \<Rightarrow> n)\<rparr>"

text \<open>
  Modelled from the spec: the unique constraints of the table \<open>Inventario\<close> (its schema
  is not among the sources): a duplicate code is a conflict, and an inventory is 1:1 with
  its product. The controllers report both as \<open>P2002\<close>.
\<close>

definition codigoTaken :: "db \<Rightarrow> nat option \<Rightarrow> string option \<Rightarrow> bool" where
  "codigoTaken tx self c =
     (case c of
        None \<Rightarrow> False
      | Some k \<Rightarrow> list_ex (\<lambda>i. Some (i_id i) \<noteq> self \<and> codigo i = Some k) (inventarios tx))"

definition inventarioUpdateRow :: "db \<Rightarrow> nat \<Rightarrow> inventarioData \<Rightarrow> error + (inventario \<times> db)" where
  "inventarioUpdateRow tx iid dat =
     (if (case u_stock dat of None \<Rightarrow> False | Some n \<Rightarrow> \<not> int4 n)
         \<or> (case u_minimo dat of None \<Rightarrow> False | Some n \<Rightarrow> \<not> int4 n)
      then Inl OUT_OF_RANGE
      else
      case findInventario tx iid of
        None \<Rightarrow> Inl P2025
      | Some cur \<Rightarrow>
          if (case u_codigo dat of None \<Rightarrow> False | Some c \<Rightarrow> codigoTaken tx (Some iid) c)
          then Inl P2002
          else Inr (applyData dat cur,
                    tx\<lparr>inventarios :=
                         map (\<lambda>i. if i_id i = iid then applyData dat i else i) (inventarios tx)\<rparr>))"

definition inventarioCreateRow ::
  "db \<Rightarrow> nat \<Rightarrow> string option \<Rightarrow> string option \<Rightarrow> int \<Rightarrow> int \<Rightarrow> error + (inventario \<times> db)" where
  "inventarioCreateRow tx pid cod ubi stk mn =
     (if \<not> int4 stk \<or> \<not> int4 mn then Inl OUT_OF_RANGE
      else if codigoTaken tx None cod \<or> list_ex (\<lambda>i. productoId i = pid) (inventarios tx)
      then Inl P2002
      else
        let nuevo = \<lparr>i_id = nextId tx, productoId = pid, codigo = cod, stock = stk,
                     minimo = mn, ubicacion = ubi\<rparr>
        in Inr (nuevo, tx\<lparr>inventarios := inventarios tx @ [nuevo], nextId := nextId tx + 1\<rparr>))"

text \<open>
  Modelled from the spec: deleting an inventory cascades to its movements and alerts (the
  foreign keys of \<open>StockAlert\<close> and \<open>StockCriticalRule\<close> are not among the sources; the
  rule, 1:1 with its inventory, goes with it).
\<close>

definition inventarioDeleteWhere :: "db \<Rightarrow> (inventario \<Rightarrow> bool) \<Rightarrow> db" where
  "inventarioDeleteWhere tx P =
     (let gone = map i_id (filter P (inventarios tx)) in
      tx\<lparr>inventarios := filter (\<lambda>i. \<not> P i) (inventarios tx),
         movimientos := filter (\<lambda>m. m_inventarioId m \<notin> set gone) (movimientos tx),
         alerts := filter (\<lambda>a. a_inventarioId a \<notin> set gone) (alerts tx),
         criticalRules := filter (\<lambda>r. r_inventarioId r \<notin> set gone) (criticalRules tx)\<rparr>)"

section \<open>Direct creation, edit and deletion of an inventory\<close>

definition emptyToNull :: "string option \<Rightarrow> string option" where
  "emptyToNull v =
     (case v of None \<Rightarrow> None | Some x \<Rightarrow> (let s = trim x in if s = [] then None else Some s))"

definition assertProductoNoEsFlete :: "db \<Rightarrow> nat \<Rightarrow> error + unit" where
  "assertProductoNoEsFlete d pid =
     (case findProducto d pid of
        None \<Rightarrow> Inl PRODUCTO_NOT_FOUND
      | Some prd \<Rightarrow> if isFleteTipo (Some (p_tipo prd)) then Inl PRODUCTO_ES_FLETE else Inr ())"

text \<open>The body of a request after the schema has accepted it.\<close>

record inventarioCreateParsed =
  c_productoId :: nat
  c_codigo :: "string option"
  c_stock :: int
  c_minimo :: int
  c_ubicacion :: "string option"

record inventarioUpdateParsed =
  b_codigo :: "string option"
  b_stock :: "int option"
  b_minimo :: "int option"
  b_ubicacion :: "string option"

definition normalizeInventarioUpdate :: "inventarioUpdateParsed \<Rightarrow> inventarioData" where
  "normalizeInventarioUpdate body =
     \<lparr>u_codigo = (case b_codigo body of None \<Rightarrow> None | Some c \<Rightarrow> Some (emptyToNull (Some c))),
      u_ubicacion = (case b_ubicacion body of None \<Rightarrow> None | Some u \<Rightarrow> Some (emptyToNull (Some u))),
      u_stock = b_stock body,
      u_minimo = b_minimo body\<rparr>"

definition createInventario ::
  "db \<Rightarrow> inventarioCreateParsed \<Rightarrow> int \<Rightarrow> (error + (inventario \<times> eval_result)) \<times> db" where
  "createInventario d parsed now =
     (case assertProductoNoEsFlete d (c_productoId parsed) of
        Inl e \<Rightarrow> (Inl e, d)
      | Inr _ \<Rightarrow>
          (case inventarioCreateRow d (c_productoId parsed) (emptyToNull (c_codigo parsed))
                  (emptyToNull (c_ubicacion parsed)) (c_stock parsed) (c_minimo parsed) of
             Inl e \<Rightarrow> (Inl e, d)
           | Inr (nuevo, d1) \<Rightarrow>
               (case evaluateStockCritical d1 (i_id nuevo) now of
                  (Inl e, d2) \<Rightarrow> (Inl e, d2)
                | (Inr stockCritical, d2) \<Rightarrow> (Inr (nuevo, stockCritical), d2))))"

definition updateInventario ::
  "db \<Rightarrow> nat \<Rightarrow> inventarioUpdateParsed \<Rightarrow> int \<Rightarrow> (error + (inventario \<times> eval_result)) \<times> db" where
  "updateInventario d iid parsed now =
     (let dat = normalizeInventarioUpdate parsed in
      case findInventario d iid of
        None \<Rightarrow> (Inl NOT_FOUND_404, d)
      | Some current \<Rightarrow>
          (case assertProductoNoEsFlete d (productoId current) of
             Inl e \<Rightarrow> (Inl e, d)
           | Inr _ \<Rightarrow>
               (case inventarioUpdateRow d iid dat of
                  Inl e \<Rightarrow> (Inl e, d)
                | Inr (actualizado, d1) \<Rightarrow>
                    let touchedStockOrMin = (u_stock dat \<noteq> None \<or> u_minimo dat \<noteq> None) in
                    if touchedStockOrMin then
                      (case evaluateStockCritical d1 iid now of
                         (Inl e, d2) \<Rightarrow> (Inl e, d2)
                       | (Inr stockCritical, d2) \<Rightarrow> (Inr (actualizado, stockCritical), d2))
                    else (Inr (actualizado, Noop None), d1))))"

definition deleteInventario :: "db \<Rightarrow> nat \<Rightarrow> (error + unit) \<times> db" where
  "deleteInventario d iid =
     (case findInventario d iid of
        None \<Rightarrow> (Inl P2025, d)
      | Some _ \<Rightarrow> (Inr (), inventarioDeleteWhere d (\<lambda>i. i_id i = iid)))"

section \<open>Stock movements\<close>

record movimientoData =
  d_inventarioId :: nat
  d_tipo :: mov_tipo
  d_cantidad :: int
  d_nota :: "string option"

definition movimientoCreateRow :: "db \<Rightarrow> stockMovimiento \<Rightarrow> error + (stockMovimiento \<times> db)" where
  "movimientoCreateRow tx m =
     (if \<not> int4 (cantidad m) then Inl OUT_OF_RANGE
      else Inr (m, tx\<lparr>movimientos := movimientos tx @ [m]\<rparr>))"

definition nuevoStockDe :: "mov_tipo \<Rightarrow> int \<Rightarrow> int \<Rightarrow> int" where
  "nuevoStockDe tipo stk cant =
     (let n0 = stk;
          n1 = (if tipo = Entrada then stk + cant else n0);
          n2 = (if tipo = Salida then stk - cant else n1);
          n3 = (if tipo = Ajuste then cant else n2)
      in n3)"

definition createMovimientoStockTx ::
  "movimientoData \<Rightarrow> int \<Rightarrow> db \<Rightarrow> error + ((stockMovimiento \<times> inventario \<times> eval_result) \<times> db)" where
  "createMovimientoStockTx dat now tx =
     (case findInventario tx (d_inventarioId dat) of
        None \<Rightarrow> Inl INV_NOT_FOUND
      | Some invr \<Rightarrow>
          if isFleteTipo (map_option p_tipo (findProducto tx (productoId invr)))
          then Inl PRODUCTO_ES_FLETE
          else
            let nuevoStock = nuevoStockDe (d_tipo dat) (stock invr) (d_cantidad dat) in
            if nuevoStock < 0 then Inl STOCK_NEGATIVO
            else
              (case movimientoCreateRow tx
                      \<lparr>m_inventarioId = d_inventarioId dat, m_tipo = d_tipo dat,
                        cantidad = d_cantidad dat, nota = d_nota dat\<rparr> of
                 Inl e \<Rightarrow> Inl e
               | Inr (mov, tx1) \<Rightarrow>
                   (case inventarioUpdateRow tx1 (d_inventarioId dat)
                           (noData\<lparr>u_stock := Some nuevoStock\<rparr>) of
                      Inl e \<Rightarrow> Inl e
                    | Inr (invUpdated, tx2) \<Rightarrow>
                        (case evaluateStockCriticalTx tx2 (d_inventarioId dat) now of
                           Inl e \<Rightarrow> Inl e
                         | Inr (stockCritical, tx3) \<Rightarrow>
                             Inr ((mov, invUpdated, stockCritical), tx3)))))"

definition createMovimientoStock ::
  "db \<Rightarrow> movimientoData \<Rightarrow> int \<Rightarrow> (error + (stockMovimiento \<times> inventario \<times> eval_result)) \<times> db" where
  "createMovimientoStock d dat now = transaction (createMovimientoStockTx dat now) d"

section \<open>Alert endpoints\<close>

definition ackStockAlert :: "db \<Rightarrow> nat \<Rightarrow> int \<Rightarrow> (error + stockAlert) \<times> db" where
  "ackStockAlert d aid now =
     (case findAlert d aid of
        None \<Rightarrow> (Inl NOT_FOUND_404, d)
      | Some current \<Rightarrow>
          if status current \<noteq> OPEN then
            (case findAlert d aid of None \<Rightarrow> (Inl NOT_FOUND_404, d) | Some same \<Rightarrow> (Inr same, d))
          else
            let upd = (\<lambda>a. a\<lparr>status := ACK, ackAt := Some now\<rparr>)
            in (Inr (upd current), updateAlert d aid upd))"

definition resolveStockAlert :: "db \<Rightarrow> nat \<Rightarrow> int \<Rightarrow> (error + stockAlert) \<times> db" where
  "resolveStockAlert d aid now =
     (case findAlert d aid of
        None \<Rightarrow> (Inl NOT_FOUND_404, d)
      | Some current \<Rightarrow>
          if status current = RESOLVED then
            (case findAlert d aid of None \<Rightarrow> (Inl NOT_FOUND_404, d) | Some same \<Rightarrow> (Inr same, d))
          else
            let upd = (\<lambda>a. a\<lparr>status := RESOLVED, resolvedAt := Some now\<rparr>)
            in (Inr (upd current), updateAlert d aid upd))"

section \<open>Bulk import\<close>

text \<open>
  A sheet row after the header keys are normalised. A text field holds
  \<open>String(obj.f ?? "")\<close> and a numeric field holds \<open>Number(obj.f)\<close>, a JavaScript
  number: not-a-number, an infinity, or a finite value.
\<close>

datatype jsnum = NaN | PosInfinity | NegInfinity | Fin rat

record rawRow =
  x_sku :: string
  x_codigo :: string
  x_nombre :: string
  x_tipo :: string
  x_precio :: jsnum
  x_stock :: jsnum
  x_minimo :: jsnum
  x_fotoUrl :: string

record importRow =
  w_sku :: string
  w_codigo :: "string option"
  w_nombre :: string
  w_tipo :: string
  w_precio :: int
  w_stock :: int
  w_minimo :: int
  w_fotoUrl :: "string option"

text \<open>The text of a row error is kept as a tag.\<close>

datatype rowError =
    SkuObligatorio | NombreObligatorio | TipoInvalido | CodigoObligatorio
  | Duplicado | Otro error

definition allDigits :: "string \<Rightarrow> bool" where
  "allDigits s = (s \<noteq> [] \<and> list_all isDigit s)"

text \<open>\<open>/^PRE-\d+$/i\<close> for a prefix \<open>PRE\<close> of upper-case letters.\<close>

definition matchDashDigits :: "string \<Rightarrow> string \<Rightarrow> bool" where
  "matchDashDigits pre s =
     (toUpperCase (take (length pre + 1) s) = pre @ ''-'' \<and> allDigits (drop (length pre + 1) s))"

text \<open>\<open>/^PRE\D*(\d+)$/i\<close>: the digits of the group when the text matches.\<close>

definition matchTrailingDigits :: "string \<Rightarrow> string \<Rightarrow> string option" where
  "matchTrailingDigits pre s =
     (let ds = dropWhile (\<lambda>c. \<not> isDigit c) (drop (length pre) s) in
      if toUpperCase (take (length pre) s) = pre \<and> allDigits ds then Some ds else None)"

definition normalizeSku :: "string \<Rightarrow> string option" where
  "normalizeSku raw =
     (let s = trim raw in
      if s = [] then None
      else if matchDashDigits ''SKU'' s then Some (toUpperCase s)
      else if allDigits s then Some (''SKU-'' @ s)
      else (case matchTrailingDigits ''SKU'' s of
              Some m \<Rightarrow> Some (toUpperCase (''SKU-'' @ m))
            | None \<Rightarrow> Some (toUpperCase s)))"

definition normalizeInvCode :: "string \<Rightarrow> string option" where
  "normalizeInvCode raw =
     (let s = trim raw in
      if s = [] then None
      else if matchDashDigits ''INV'' s then Some (toUpperCase s)
      else if allDigits s then Some (''INV-'' @ s)
      else (case matchTrailingDigits ''INV'' s of
              Some m \<Rightarrow> Some (toUpperCase (''INV-'' @ m))
            | None \<Rightarrow> Some (toUpperCase s)))"

text \<open>
  \<open>mapTipoToPrismaEnum\<close>. The values of the enum \<open>ProductoTipo\<close> come from the database
  schema, which is not among the sources: they are the parameter \<open>tipos\<close>.
\<close>

definition mapTipoToPrismaEnum :: "string list \<Rightarrow> string \<Rightarrow> string option" where
  "mapTipoToPrismaEnum tipos raw =
     (let s = trim raw in
      if s = [] then None
      else
        let lower = toLowerCase s in
        (case find (\<lambda>v. v = s) tipos of
           Some exact \<Rightarrow> Some exact
         | None \<Rightarrow>
             (case find (\<lambda>v. toLowerCase v = lower) tipos of
                Some ciExact \<Rightarrow> Some ciExact
              | None \<Rightarrow>
                  if includesStr lower ''flet''
                  then find (\<lambda>v. includesStr (toLowerCase v) ''flet'') tipos
                  else if includesStr lower ''prod''
                  then find (\<lambda>v. \<not> includesStr (toLowerCase v) ''flet'') tipos
                  else None)))"

definition mathTrunc :: "rat \<Rightarrow> int" where
  "mathTrunc q = (if q < 0 then \<lceil>q\<rceil> else \<lfloor>q\<rfloor>)"

definition toInt :: "jsnum \<Rightarrow> int \<Rightarrow> int" where
  "toInt n def = (case n of Fin q \<Rightarrow> mathTrunc q | _ \<Rightarrow> def)"

definition toNonNegInt :: "jsnum \<Rightarrow> int \<Rightarrow> int" where
  "toNonNegInt raw def = (let n = toInt raw def in if n < 0 then def else n)"

definition toNonNegMoney :: "jsnum \<Rightarrow> int \<Rightarrow> int" where
  "toNonNegMoney raw def = (let n = toInt raw def in if n < 0 then def else n)"

definition parseImportRow :: "string list \<Rightarrow> rawRow \<Rightarrow> rowError + importRow" where
  "parseImportRow tipos obj =
     (let sku = normalizeSku (x_sku obj);
          cod = normalizeInvCode (x_codigo obj);
          nombre = trim (x_nombre obj);
          tipo = mapTipoToPrismaEnum tipos (x_tipo obj);
          precio = toNonNegMoney (x_precio obj) 0;
          stk = toNonNegInt (x_stock obj) 0;
          mn = toNonNegInt (x_minimo obj) 0;
          foto = (let f = trim (x_fotoUrl obj) in if f = [] then None else Some f)
      in
      case sku of
        None \<Rightarrow> Inl SkuObligatorio
      | Some sk \<Rightarrow>
          if sk = [] then Inl SkuObligatorio
          else if nombre = [] then Inl NombreObligatorio
          else
            (case tipo of
               None \<Rightarrow> Inl TipoInvalido
             | Some tp \<Rightarrow>
                 if tp = [] then Inl TipoInvalido
                 else if \<not> isFleteTipo (Some tp) \<and> (cod = None \<or> cod = Some [])
                 then Inl CodigoObligatorio
                 else Inr \<lparr>w_sku = sk, w_codigo = cod, w_nombre = nombre, w_tipo = tp,
                            w_precio = precio, w_stock = stk, w_minimo = mn, w_fotoUrl = foto\<rparr>))"

record importFlags =
  productoCreated :: bool
  productoUpdated :: bool
  invCreated :: bool
  invUpdated :: bool
  invId :: "nat option"

definition productoUpsert ::
  "db \<Rightarrow> importRow \<Rightarrow> producto option \<Rightarrow> error + (producto \<times> db)" where
  "productoUpsert tx row existing =
     (if \<not> int4 (w_precio row) then Inl OUT_OF_RANGE
      else
        (case existing of
           Some e \<Rightarrow>
             (let upd = (\<lambda>p. p\<lparr>p_sku := Some (w_sku row), p_nombre := w_nombre row,
                                 p_tipo := w_tipo row, precioGeneral := w_precio row,
                                 precioConDescto := w_precio row, p_fotoUrl := w_fotoUrl row,
                                 unidadMedida := ''unidad''\<rparr>)
              in Inr (upd e,
                      tx\<lparr>productos := map (\<lambda>p. if p_id p = p_id e then upd p else p) (productos tx)\<rparr>))
         | None \<Rightarrow>
             (let nuevo = \<lparr>p_id = nextId tx, p_sku = Some (w_sku row), p_nombre = w_nombre row,
                           p_tipo = w_tipo row, precioGeneral = w_precio row,
                           precioConDescto = w_precio row, p_fotoUrl = w_fotoUrl row,
                           unidadMedida = ''unidad''\<rparr>
              in Inr (nuevo, tx\<lparr>productos := productos tx @ [nuevo], nextId := nextId tx + 1\<rparr>))))"

definition importRowTx :: "importRow \<Rightarrow> int \<Rightarrow> db \<Rightarrow> error + (importFlags \<times> db)" where
  "importRowTx row now tx =
     (let existing = find (\<lambda>p. p_sku p = Some (w_sku row)) (productos tx) in
      case productoUpsert tx row existing of
        Inl e \<Rightarrow> Inl e
      | Inr (prd, tx1) \<Rightarrow>
      (if \<not> isFleteTipo (Some (w_tipo row)) then
        (case find (\<lambda>i. productoId i = p_id prd) (inventarios tx1) of
           Some invExisting \<Rightarrow>
             (case inventarioUpdateRow tx1 (i_id invExisting)
                     (noData\<lparr>u_codigo := Some (w_codigo row), u_stock := Some (w_stock row),
                              u_minimo := Some (w_minimo row)\<rparr>) of
                Inl e \<Rightarrow> Inl e
              | Inr (updated, tx2) \<Rightarrow>
                  (case evaluateStockCriticalTx tx2 (i_id updated) now of
                     Inl e \<Rightarrow> Inl e
                   | Inr (_, tx3) \<Rightarrow>
                       Inr (\<lparr>productoCreated = (existing = None), productoUpdated = (existing \<noteq> None),
                             invCreated = False, invUpdated = True, invId = Some (i_id updated)\<rparr>, tx3)))
         | None \<Rightarrow>
             (case inventarioCreateRow tx1 (p_id prd) (w_codigo row) None (w_stock row) (w_minimo row) of
                Inl e \<Rightarrow> Inl e
              | Inr (created, tx2) \<Rightarrow>
                  (case evaluateStockCriticalTx tx2 (i_id created) now of
                     Inl e \<Rightarrow> Inl e
                   | Inr (_, tx3) \<Rightarrow>
                       Inr (\<lparr>productoCreated = (existing = None), productoUpdated = (existing \<noteq> None),
                             invCreated = True, invUpdated = False, invId = Some (i_id created)\<rparr>, tx3))))
      else
        Inr (\<lparr>productoCreated = (existing = None), productoUpdated = (existing \<noteq> None),
              invCreated = False, invUpdated = False, invId = None\<rparr>,
             inventarioDeleteWhere tx1 (\<lambda>i. productoId i = p_id prd))))"

record importReport =
  errores :: "(nat \<times> rowError) list"
  createdProductos :: nat
  updatedProductos :: nat
  createdInventarios :: nat
  updatedInventarios :: nat

definition emptyReport :: importReport where
  "emptyReport = \<lparr>errores = [], createdProductos = 0, updatedProductos = 0,
                  createdInventarios = 0, updatedInventarios = 0\<rparr>"

definition rowErrorOf :: "error \<Rightarrow> rowError" where
  "rowErrorOf e = (if e = P2002 then Duplicado else Otro e)"

definition bump :: "bool \<Rightarrow> nat \<Rightarrow> nat" where
  "bump b n = (if b then n + 1 else n)"

text \<open>
  One turn of the loop over the sheet, at index \<open>i\<close>; \<open>now\<close> is the time the
  evaluator reads in that turn.
\<close>

definition importStep :: "string list \<Rightarrow> int \<Rightarrow> nat \<Rightarrow> rawRow \<Rightarrow> db \<times> importReport \<Rightarrow> db \<times> importReport" where
  "importStep tipos now i raw st =
     (let d = fst st; rep = snd st; excelRowNumber = i + 2 in
      case parseImportRow tipos raw of
        Inl msg \<Rightarrow> (d, rep\<lparr>errores := errores rep @ [(excelRowNumber, msg)]\<rparr>)
      | Inr row \<Rightarrow>
          (case transaction (importRowTx row now) d of
             (Inl e, d') \<Rightarrow> (d', rep\<lparr>errores := errores rep @ [(excelRowNumber, rowErrorOf e)]\<rparr>)
           | (Inr flags, d') \<Rightarrow>
               (d', rep\<lparr>createdProductos := bump (productoCreated flags) (createdProductos rep),
                        updatedProductos := bump (productoUpdated flags) (updatedProductos rep),
                        createdInventarios := bump (invCreated flags) (createdInventarios rep),
                        updatedInventarios := bump (invUpdated flags) (updatedInventarios rep)\<rparr>)))"

fun importLoop ::
  "string list \<Rightarrow> (nat \<Rightarrow> int) \<Rightarrow> nat \<Rightarrow> rawRow list \<Rightarrow> db \<times> importReport \<Rightarrow> db \<times> importReport" where
  "importLoop tipos clock i [] st = st"
| "importLoop tipos clock i (raw # rest) st =
     importLoop tipos clock (i + 1) rest (importStep tipos (clock i) i raw st)"

definition importInventarioExcel ::
  "string list \<Rightarrow> (nat \<Rightarrow> int) \<Rightarrow> db \<Rightarrow> rawRow list \<Rightarrow> (error + importReport) \<times> db" where
  "importInventarioExcel tipos clock d normalizedRows =
     (if normalizedRows = [] then (Inl EXCEL_VACIO, d)
      else (let (d', rep) = importLoop tipos clock 0 normalizedRows (d, emptyReport)
            in (Inr rep, d')))"

section \<open>Reachable stores\<close>

text \<open>
  One step is one request served to its end: an evaluation on its own, a movement, a
  direct creation, edit or deletion, one row of an import, an acknowledgement or a manual
  resolution. A store is reachable when it comes from a store without alerts by such
  steps.
\<close>

inductive step :: "db \<Rightarrow> db \<Rightarrow> bool" where
  s_evaluate: "step d (snd (evaluateStockCritical d iid now))"
| s_movement: "step d (snd (createMovimientoStock d dat now))"
| s_create: "step d (snd (createInventario d cparsed now))"
| s_edit: "step d (snd (updateInventario d iid uparsed now))"
| s_delete: "step d (snd (deleteInventario d iid))"
| s_import: "step d (fst (importStep tipos now i raw (d, rep)))"
| s_ack: "step d (snd (ackStockAlert d aid now))"
| s_resolve: "step d (snd (resolveStockAlert d aid now))"

inductive reachable :: "db \<Rightarrow> bool" where
  r_init: "alerts d = [] \<Longrightarrow> reachable d"
| r_step: "reachable d \<Longrightarrow> step d d' \<Longrightarrow> reachable d'"

definition oneActive :: "db \<Rightarrow> bool" where
  "oneActive d = (\<forall>iid. length (activeAlerts d iid) \<le> 1)"

text \<open>
  The foreign key \<open>Inventario_productoId_fkey\<close> of the migrations, read at one
  inventory: if the inventory exists, so does its product row.
\<close>

definition productoPresente :: "db \<Rightarrow> nat \<Rightarrow> bool" where
  "productoPresente d iid =
     (case findInventario d iid of
        None \<Rightarrow> True
      | Some invr \<Rightarrow> findProducto d (productoId invr) \<noteq> None)"

text \<open>
  The outcomes by which the evaluator treats an inventory as critical: it opens an alert,
  resends one, or holds one back for the cooldown.
\<close>

definition criticalOutcome :: "eval_result \<Rightarrow> bool" where
  "criticalOutcome r =
     (case r of Created _ \<Rightarrow> True | Resent _ \<Rightarrow> True | Noop x \<Rightarrow> x = Some cooldown | Resolved _ \<Rightarrow> False)"

text \<open>The error a sheet row is reported with on a given store, if it fails there.\<close>

definition rowFailure :: "string list \<Rightarrow> int \<Rightarrow> rawRow \<Rightarrow> db \<Rightarrow> rowError option" where
  "rowFailure tipos now raw d =
     (case parseImportRow tipos raw of
        Inl msg \<Rightarrow> Some msg
      | Inr row \<Rightarrow> (case importRowTx row now d of Inl e \<Rightarrow> Some (rowErrorOf e) | Inr _ \<Rightarrow> None))"

section \<open>Example stores\<close>

text \<open>One product with an inventory of stock 2 and minimum 5, and no alert yet.\<close>

definition demoStore :: db where
  "demoStore =
     \<lparr>productos = [\<lparr>p_id = 0, p_sku = Some ''SKU-1'', p_nombre = ''Perno'', p_tipo = ''Producto'',
                     precioGeneral = 100, precioConDescto = 100, p_fotoUrl = None,
                     unidadMedida = ''unidad''\<rparr>],
      inventarios = [\<lparr>i_id = 1, productoId = 0, codigo = Some ''INV-1'', stock = 2, minimo = 5,
                       ubicacion = None\<rparr>],
      criticalRules = [], alerts = [], notificaciones = [], movimientos = [], nextId = 2\<rparr>"

text \<open>The same store after an evaluation at time 0: alert 2 is open and active.\<close>

definition alertedStore :: db where
  "alertedStore = snd (evaluateStockCritical demoStore 1 0)"

definition sixHours :: int where
  "sixHours = 360 * 60 * 1000"

definition demoAlert :: stockAlert where
  "demoAlert = \<lparr>a_id = 2, a_inventarioId = 1, threshold = 5, stockAtAlert = 2, status = OPEN,
              isActive = True, openedAt = Some 0, lastSentAt = Some 0, resolvedAt = None,
              ackAt = None, channel = ''system'', meta = (0, ''Perno'', Some ''SKU-1'')\<rparr>"

text \<open>The alerted store after alert 2 is acknowledged at time 5.\<close>

definition ackedStore :: db where
  "ackedStore = snd (ackStockAlert alertedStore 2 5)"

definition demoMovimiento :: "mov_tipo \<Rightarrow> int \<Rightarrow> movimientoData" where
  "demoMovimiento t q = \<lparr>d_inventarioId = 1, d_tipo = t, d_cantidad = q, d_nota = None\<rparr>"

text \<open>
  An inventory with minimum 0 and a rule that overrides the threshold with 5; the stock
  is the parameter.
\<close>

definition overrideStore :: "int \<Rightarrow> db" where
  "overrideStore stk =
     demoStore\<lparr>inventarios := [\<lparr>i_id = 1, productoId = 0, codigo = Some ''INV-1'', stock = stk,
                                  minimo = 0, ubicacion = None\<rparr>],
               criticalRules := [\<lparr>r_inventarioId = 1, enabled = True, thresholdOverride = Some 5,
                                   cooldownMinutes = None, lastNotifiedAt = None\<rparr>]\<rparr>"

text \<open>
  Two edits of inventory 1: one repeats its stock and its minimum, one moves it to
  another place.
\<close>

definition sameStockEdit :: inventarioUpdateParsed where
  "sameStockEdit = \<lparr>b_codigo = None, b_stock = Some 2, b_minimo = Some 5, b_ubicacion = None\<rparr>"

definition ubicacionEdit :: inventarioUpdateParsed where
  "ubicacionEdit = \<lparr>b_codigo = None, b_stock = None, b_minimo = None, b_ubicacion = Some ''B-7''\<rparr>"

text \<open>The store with its product and no inventory yet, and the request that creates one.\<close>

definition sinInventario :: db where
  "sinInventario = demoStore\<lparr>inventarios := []\<rparr>"

definition nuevoInventario :: inventarioCreateParsed where
  "nuevoInventario = \<lparr>c_productoId = 0, c_codigo = Some ''INV-9'', c_stock = 2, c_minimo = 5,
                       c_ubicacion = None\<rparr>"

text \<open>
  The store whose product is of the type \<open>Servicio\<close>, the second value of the enum
  \<open>ProductoTipo\<close> in the migrations and in the products controller.
\<close>

definition servicioStore :: db where
  "servicioStore =
     demoStore\<lparr>productos := [\<lparr>p_id = 0, p_sku = Some ''SKU-1'', p_nombre = ''Instalacion'',
                                p_tipo = ''Servicio'', precioGeneral = 100, precioConDescto = 100,
                                p_fotoUrl = None, unidadMedida = ''unidad''\<rparr>]\<rparr>"

text \<open>A numeric cell that is negative or not a finite number.\<close>

definition negativeOrNotFinite :: "jsnum \<Rightarrow> bool" where
  "negativeOrNotFinite n = (case n of Fin q \<Rightarrow> q < 0 | _ \<Rightarrow> True)"

text \<open>A sheet row for product \<open>SKU-7\<close> whose three numeric cells are all unusable.\<close>

definition badNumbersRow :: rawRow where
  "badNumbersRow =
     \<lparr>x_sku = ''7'', x_codigo = ''inv 7'', x_nombre = '' Golilla '', x_tipo = ''producto'',
      x_precio = NegInfinity, x_stock = Fin (- 4), x_minimo = NaN, x_fotoUrl = []\<rparr>"

text \<open>The rows of a report that are accounted for: as an error or as a product written.\<close>

definition rowsAccounted :: "importReport \<Rightarrow> nat" where
  "rowsAccounted rep = length (errores rep) + createdProductos rep + updatedProductos rep"

text \<open>
  A sheet of four rows on an empty store: the second has a type that maps to nothing, the
  third repeats the inventory code of the first.
\<close>

definition emptyStore :: db where
  "emptyStore = \<lparr>productos = [], inventarios = [], criticalRules = [], alerts = [],
                  notificaciones = [], movimientos = [], nextId = 0\<rparr>"

definition demoTipos :: "string list" where
  "demoTipos = [''Producto'', ''Servicio'']"

definition sheetRow :: "string \<Rightarrow> string \<Rightarrow> string \<Rightarrow> rawRow" where
  "sheetRow sk cod tp =
     \<lparr>x_sku = sk, x_codigo = cod, x_nombre = ''Perno'', x_tipo = tp, x_precio = Fin 100,
      x_stock = Fin 2, x_minimo = Fin 5, x_fotoUrl = []\<rparr>"

definition demoSheet :: "rawRow list" where
  "demoSheet = [sheetRow ''1'' ''INV-1'' ''Producto'', sheetRow ''2'' ''INV-2'' ''xyz'',
                sheetRow ''3'' ''INV-1'' ''Producto'', sheetRow ''4'' ''INV-4'' ''Producto'']"

section \<open>At most one active alert\<close>

lemma newest_None: "newest xs = None \<longleftrightarrow> xs = []"
  by (induction xs) (auto split: option.splits)

lemma newest_mem: "newest xs = Some a \<Longrightarrow> a \<in> set xs"
  by (induction xs arbitrary: a) (auto split: option.splits if_splits)

lemma alerts_updateRule [simp]: "alerts (updateRule tx iid f) = alerts tx"
  by (simp add: updateRule_def)

lemma alerts_stampRule [simp]: "alerts (stampRule rule tx iid now) = alerts tx"
  by (simp add: stampRule_def)

lemma alerts_createNotificacion [simp]: "alerts (createNotificacion tx n) = alerts tx"
  by (simp add: createNotificacion_def)

lemma activeAlerts_cong: "alerts d' = alerts d \<Longrightarrow> activeAlerts d' iid = activeAlerts d iid"
  by (simp add: activeAlerts_def)

lemma length_filter_map_le:
  assumes "\<And>x. P (g x) \<Longrightarrow> P x"
  shows "length (filter P (map g xs)) \<le> length (filter P xs)"
  using assms by (induction xs) (auto simp: le_SucI)

lemma activeAlerts_updateAlert_le:
  assumes "\<And>a. a_inventarioId (f a) = a_inventarioId a" and "\<And>a. isActive (f a) \<Longrightarrow> isActive a"
  shows "length (activeAlerts (updateAlert d aid f) iid) \<le> length (activeAlerts d iid)"
proof -
  have "length (filter (\<lambda>a. a_inventarioId a = iid \<and> isActive a)
                  (map (\<lambda>a. if a_id a = aid then f a else a) (alerts d)))
        \<le> length (filter (\<lambda>a. a_inventarioId a = iid \<and> isActive a) (alerts d))"
    by (rule length_filter_map_le) (use assms in \<open>auto split: if_splits\<close>)
  then show ?thesis by (simp add: activeAlerts_def updateAlert_def)
qed

lemma oneActive_updateAlert:
  assumes "\<And>a. a_inventarioId (f a) = a_inventarioId a" and "\<And>a. isActive (f a) \<Longrightarrow> isActive a"
    and "oneActive d"
  shows "oneActive (updateAlert d aid f)"
  unfolding oneActive_def
proof
  fix iid
  have "length (activeAlerts (updateAlert d aid f) iid) \<le> length (activeAlerts d iid)"
    using assms(1,2) by (rule activeAlerts_updateAlert_le)
  with assms(3) show "length (activeAlerts (updateAlert d aid f) iid) \<le> 1"
    unfolding oneActive_def using le_trans by blast
qed

lemma oneActive_cong: "oneActive d \<Longrightarrow> alerts d' = alerts d \<Longrightarrow> oneActive d'"
  by (simp add: oneActive_def activeAlerts_def)

lemma oneActive_stampRule [simp]: "oneActive (stampRule rule tx iid now) = oneActive tx"
  by (simp add: oneActive_def activeAlerts_def)

lemma oneActive_createNotificacion [simp]: "oneActive (createNotificacion tx n) = oneActive tx"
  by (simp add: oneActive_def activeAlerts_def)

lemma oneActive_create:
  assumes "findActiveAlert tx iid = None" and "oneActive tx" and "a_inventarioId a = iid"
  shows "oneActive (tx\<lparr>alerts := alerts tx @ [a], nextId := n\<rparr>)"
  unfolding oneActive_def
proof
  fix j
  from assms(1) have no: "activeAlerts tx iid = []" by (simp add: findActiveAlert_def newest_None)
  show "length (activeAlerts (tx\<lparr>alerts := alerts tx @ [a], nextId := n\<rparr>) j) \<le> 1"
  proof (cases "j = iid")
    case True
    with no show ?thesis by (simp add: activeAlerts_def)
  next
    case False
    with assms(3) have "activeAlerts (tx\<lparr>alerts := alerts tx @ [a], nextId := n\<rparr>) j = activeAlerts tx j"
      by (auto simp add: activeAlerts_def)
    with assms(2) show ?thesis by (simp add: oneActive_def)
  qed
qed

lemma evaluate_oneActive:
  assumes "evaluateStockCriticalTx tx iid now = Inr (r, tx')" and "oneActive tx"
  shows "oneActive tx'"
  using assms
  by (auto simp: evaluateStockCriticalTx_def Let_def split: if_splits option.splits
           intro!: oneActive_updateAlert oneActive_create)


lemma transaction_oneActive:
  assumes "\<And>r d'. body d = Inr (r, d') \<Longrightarrow> oneActive d'" and "oneActive d"
  shows "oneActive (snd (transaction body d))"
  using assms by (auto simp: transaction_def split: sum.splits)

lemma alerts_inventarioUpdateRow:
  "inventarioUpdateRow tx iid dat = Inr (r, tx') \<Longrightarrow> alerts tx' = alerts tx"
  by (auto simp: inventarioUpdateRow_def split: option.splits if_splits)

lemma alerts_inventarioCreateRow:
  "inventarioCreateRow tx pid cod ubi stk mn = Inr (r, tx') \<Longrightarrow> alerts tx' = alerts tx"
  by (auto simp: inventarioCreateRow_def Let_def split: if_splits)

lemma oneActive_filter:
  assumes "oneActive d" and "alerts d' = filter P (alerts d)"
  shows "oneActive d'"
  unfolding oneActive_def
proof
  fix iid
  have "length (filter P (activeAlerts d iid)) \<le> length (activeAlerts d iid)"
    by (rule length_filter_le)
  moreover have "activeAlerts d' iid = filter P (activeAlerts d iid)"
    using assms(2) by (auto simp: activeAlerts_def intro: filter_cong)
  ultimately show "length (activeAlerts d' iid) \<le> 1"
    using assms(1) unfolding oneActive_def by (metis le_trans)
qed

lemma oneActive_inventarioDeleteWhere:
  "oneActive d \<Longrightarrow> oneActive (inventarioDeleteWhere d P)"
  by (erule oneActive_filter) (simp add: inventarioDeleteWhere_def Let_def)

lemma evaluateStockCritical_oneActive:
  "oneActive d \<Longrightarrow> oneActive (snd (evaluateStockCritical d iid now))"
  unfolding evaluateStockCritical_def
  by (rule transaction_oneActive) (auto dest: evaluate_oneActive)

lemma alerts_movimientoCreateRow:
  "movimientoCreateRow tx m = Inr (r, tx') \<Longrightarrow> alerts tx' = alerts tx"
  by (auto simp: movimientoCreateRow_def split: if_splits)

lemma createMovimientoStockTx_oneActive:
  assumes "createMovimientoStockTx dat now tx = Inr (r, tx')" and "oneActive tx"
  shows "oneActive tx'"
proof -
  from assms(1) obtain m mov tx1 nuevoStock u tx2 sc where
    mc: "movimientoCreateRow tx m = Inr (mov, tx1)"
    and upd: "inventarioUpdateRow tx1 (d_inventarioId dat)
            (noData\<lparr>u_stock := Some nuevoStock\<rparr>) = Inr (u, tx2)"
    and ev: "evaluateStockCriticalTx tx2 (d_inventarioId dat) now = Inr (sc, tx')"
    by (auto simp: createMovimientoStockTx_def Let_def split: option.splits if_splits sum.splits)
  from mc have "alerts tx1 = alerts tx" by (rule alerts_movimientoCreateRow)
  with assms(2) have "oneActive tx1" by (rule oneActive_cong)
  moreover from upd have "alerts tx2 = alerts tx1" by (rule alerts_inventarioUpdateRow)
  ultimately have "oneActive tx2" by (rule oneActive_cong)
  with ev show ?thesis by (rule evaluate_oneActive)
qed

lemma createMovimientoStock_oneActive:
  "oneActive d \<Longrightarrow> oneActive (snd (createMovimientoStock d dat now))"
  unfolding createMovimientoStock_def
  by (rule transaction_oneActive) (auto dest: createMovimientoStockTx_oneActive)

lemma createInventario_oneActive:
  assumes "oneActive d"
  shows "oneActive (snd (createInventario d parsed now))"
proof (cases "assertProductoNoEsFlete d (c_productoId parsed)")
  case (Inl e)
  with assms show ?thesis by (simp add: createInventario_def)
next
  case (Inr u)
  show ?thesis
  proof (cases "inventarioCreateRow d (c_productoId parsed) (emptyToNull (c_codigo parsed))
                  (emptyToNull (c_ubicacion parsed)) (c_stock parsed) (c_minimo parsed)")
    case (Inl e)
    with Inr assms show ?thesis by (simp add: createInventario_def)
  next
    case row: (Inr p)
    obtain nuevo d1 where p: "p = (nuevo, d1)" by (cases p)
    with row have "alerts d1 = alerts d" by (auto dest: alerts_inventarioCreateRow)
    with assms have "oneActive d1" by (rule oneActive_cong)
    then have "oneActive (snd (evaluateStockCritical d1 (i_id nuevo) now))"
      by (rule evaluateStockCritical_oneActive)
    with Inr row p show ?thesis
      by (auto simp: createInventario_def split: prod.splits sum.splits)
  qed
qed

lemma updateInventario_oneActive:
  assumes "oneActive d"
  shows "oneActive (snd (updateInventario d iid parsed now))"
proof (cases "findInventario d iid")
  case None
  with assms show ?thesis by (simp add: updateInventario_def)
next
  case (Some current)
  show ?thesis
  proof (cases "assertProductoNoEsFlete d (productoId current)")
    case (Inl e)
    with Some assms show ?thesis by (simp add: updateInventario_def)
  next
    case (Inr u)
    show ?thesis
    proof (cases "inventarioUpdateRow d iid (normalizeInventarioUpdate parsed)")
      case (Inl e)
      with Some Inr assms show ?thesis by (simp add: updateInventario_def)
    next
      case row: (Inr p)
      obtain actualizado d1 where p: "p = (actualizado, d1)" by (cases p)
      with row have "alerts d1 = alerts d" by (auto dest: alerts_inventarioUpdateRow)
      with assms have d1: "oneActive d1" by (rule oneActive_cong)
      then have "oneActive (snd (evaluateStockCritical d1 iid now))"
        by (rule evaluateStockCritical_oneActive)
      with Some Inr row p d1 show ?thesis
        by (auto simp: updateInventario_def Let_def split: prod.splits sum.splits)
    qed
  qed
qed

lemma deleteInventario_oneActive:
  "oneActive d \<Longrightarrow> oneActive (snd (deleteInventario d iid))"
  by (auto simp: deleteInventario_def oneActive_inventarioDeleteWhere split: option.splits)

lemma ackStockAlert_oneActive:
  "oneActive d \<Longrightarrow> oneActive (snd (ackStockAlert d aid now))"
  by (auto simp: ackStockAlert_def Let_def split: option.splits intro!: oneActive_updateAlert)

lemma resolveStockAlert_oneActive:
  "oneActive d \<Longrightarrow> oneActive (snd (resolveStockAlert d aid now))"
  by (auto simp: resolveStockAlert_def Let_def split: option.splits intro!: oneActive_updateAlert)

lemma alerts_productoUpsert:
  "productoUpsert tx row existing = Inr (p, tx') \<Longrightarrow> alerts tx' = alerts tx"
  by (auto simp: productoUpsert_def Let_def split: option.splits if_splits)

lemma importRowTx_upsert:
  assumes "importRowTx row now tx = Inr (r, tx')"
  obtains prd tx1 where
    "productoUpsert tx row (find (\<lambda>p. p_sku p = Some (w_sku row)) (productos tx)) = Inr (prd, tx1)"
proof (cases "productoUpsert tx row (find (\<lambda>p. p_sku p = Some (w_sku row)) (productos tx))")
  case (Inl e)
  with assms show ?thesis by (simp add: importRowTx_def Let_def)
next
  case (Inr q)
  then show ?thesis using that by (cases q) simp
qed

lemma importRowTx_oneActive:
  assumes "importRowTx row now tx = Inr (r, tx')" and "oneActive tx"
  shows "oneActive tx'"
proof -
  from assms(1) obtain prd tx1 where
    up: "productoUpsert tx row (find (\<lambda>p. p_sku p = Some (w_sku row)) (productos tx)) = Inr (prd, tx1)"
    by (rule importRowTx_upsert)
  then have "alerts tx1 = alerts tx" by (rule alerts_productoUpsert)
  with assms(2) have one1: "oneActive tx1" by (rule oneActive_cong)
  show ?thesis
  proof (cases "isFleteTipo (Some (w_tipo row))")
    case True
    with assms(1) up have "tx' = inventarioDeleteWhere tx1 (\<lambda>i. productoId i = p_id prd)"
      by (simp add: importRowTx_def Let_def)
    with one1 show ?thesis by (simp add: oneActive_inventarioDeleteWhere)
  next
    case False
    show ?thesis
    proof (cases "find (\<lambda>i. productoId i = p_id prd) (inventarios tx1)")
      case None
      with assms(1) up False obtain created tx2 sc where
        row: "inventarioCreateRow tx1 (p_id prd) (w_codigo row) None (w_stock row) (w_minimo row)
                = Inr (created, tx2)"
        and ev: "evaluateStockCriticalTx tx2 (i_id created) now = Inr (sc, tx')"
        by (auto simp: importRowTx_def Let_def split: sum.splits)
      from row have "alerts tx2 = alerts tx1" by (rule alerts_inventarioCreateRow)
      with one1 have "oneActive tx2" by (rule oneActive_cong)
      with ev show ?thesis by (rule evaluate_oneActive)
    next
      case (Some invExisting)
      with assms(1) up False obtain updated tx2 sc where
        row: "inventarioUpdateRow tx1 (i_id invExisting)
                (noData\<lparr>u_codigo := Some (w_codigo row), u_stock := Some (w_stock row),
                         u_minimo := Some (w_minimo row)\<rparr>) = Inr (updated, tx2)"
        and ev: "evaluateStockCriticalTx tx2 (i_id updated) now = Inr (sc, tx')"
        by (auto simp: importRowTx_def Let_def split: sum.splits)
      from row have "alerts tx2 = alerts tx1" by (rule alerts_inventarioUpdateRow)
      with one1 have "oneActive tx2" by (rule oneActive_cong)
      with ev show ?thesis by (rule evaluate_oneActive)
    qed
  qed
qed

lemma importStep_db:
  "fst (importStep tipos now i raw (d, rep)) =
     (case parseImportRow tipos raw of
        Inl msg \<Rightarrow> d
      | Inr row \<Rightarrow> snd (transaction (importRowTx row now) d))"
  by (simp add: importStep_def Let_def split: sum.splits prod.splits)

lemma importStep_oneActive:
  assumes "oneActive d"
  shows "oneActive (fst (importStep tipos now i raw (d, rep)))"
proof (cases "parseImportRow tipos raw")
  case (Inl msg)
  with assms show ?thesis by (simp add: importStep_db)
next
  case (Inr row)
  have "oneActive (snd (transaction (importRowTx row now) d))"
    by (rule transaction_oneActive) (use assms in \<open>auto dest: importRowTx_oneActive\<close>)
  with Inr show ?thesis by (simp add: importStep_db)
qed

lemma step_oneActive: "step d d' \<Longrightarrow> oneActive d \<Longrightarrow> oneActive d'"
  by (induction rule: step.induct)
     (simp_all add: evaluateStockCritical_oneActive createMovimientoStock_oneActive
        createInventario_oneActive updateInventario_oneActive deleteInventario_oneActive
        importStep_oneActive ackStockAlert_oneActive resolveStockAlert_oneActive)

lemma reachable_oneActive: "reachable d \<Longrightarrow> oneActive d"
  by (induction rule: reachable.induct) (auto simp: oneActive_def activeAlerts_def dest: step_oneActive)

text \<open>
  What the evaluator does to the active alerts of the inventory it is run for: it opens
  one only when there is none, and its resolution leaves none active.
\<close>

lemma evaluate_created_none_before:
  "evaluateStockCriticalTx tx iid now = Inr (Created k, tx') \<Longrightarrow> activeAlerts tx iid = []"
  by (auto simp: evaluateStockCriticalTx_def Let_def findActiveAlert_def newest_None
           split: if_splits option.splits)

lemma evaluate_resolved_none_after:
  assumes "evaluateStockCriticalTx tx iid now = Inr (Resolved k, tx')" and "oneActive tx"
  shows "activeAlerts tx' iid = []"
proof -
  from assms(1) obtain a where act: "findActiveAlert tx iid = Some a"
    and tx': "tx' = updateAlert tx (a_id a)
                (\<lambda>x. x\<lparr>status := RESOLVED, isActive := False, resolvedAt := Some now\<rparr>)"
    by (auto simp: evaluateStockCriticalTx_def Let_def split: if_splits option.splits)
  from act have mem: "a \<in> set (activeAlerts tx iid)"
    by (simp add: findActiveAlert_def newest_mem)
  from assms(2) have "length (activeAlerts tx iid) \<le> 1" by (simp add: oneActive_def)
  with mem have only: "activeAlerts tx iid = [a]"
    by (cases "activeAlerts tx iid") auto
  have "\<And>x. x \<in> set (alerts tx) \<Longrightarrow> a_inventarioId x = iid \<Longrightarrow> isActive x \<Longrightarrow> x = a"
  proof -
    fix x assume "x \<in> set (alerts tx)" "a_inventarioId x = iid" "isActive x"
    then have "x \<in> set (activeAlerts tx iid)" by (simp add: activeAlerts_def)
    with only show "x = a" by simp
  qed
  then show ?thesis
    unfolding tx' activeAlerts_def updateAlert_def
    by (auto simp: filter_empty_conv)
qed

text \<open>
  C1. On every store reachable by evaluations, movements, direct creations, edits and
  deletions, import rows, acknowledgements and manual resolutions, each inventory id has
  at most one alert with \<open>isActive\<close> true.
\<close>

theorem at_most_one_active_alert:
  "reachable d \<Longrightarrow> length (filter (\<lambda>a. a_inventarioId a = iid \<and> isActive a) (alerts d)) \<le> 1"
  using reachable_oneActive[of d] by (simp add: oneActive_def activeAlerts_def)

theorem at_most_one_active_alert_witness:
  "reachable alertedStore \<and>
   length (filter (\<lambda>a. a_inventarioId a = 1 \<and> isActive a) (alerts alertedStore)) \<le> 1"
proof -
  have r: "reachable alertedStore"
    unfolding alertedStore_def by (rule r_step[OF r_init s_evaluate]) (simp add: demoStore_def)
  from at_most_one_active_alert[OF r, of 1] r show ?thesis by simp
qed

section \<open>Cooldown\<close>

lemma evaluate_active_critical:
  assumes "findInventario tx iid = Some invr"
    and "findProducto tx (productoId invr) = Some p"
    and "\<not> isFleteTipo (Some (p_tipo p))"
    and "case findRule tx iid of None \<Rightarrow> True | Some r \<Rightarrow> enabled r"
    and "stock invr \<le> effectiveThreshold (findRule tx iid) invr"
    and "findActiveAlert tx iid = Some a"
  shows "evaluateStockCriticalTx tx iid now =
     (if canResend (lastNotified (findRule tx iid) a) now (effectiveCooldown (findRule tx iid))
      then Inr (Resent (a_id a),
             createNotificacion
               (stampRule (findRule tx iid)
                  (updateAlert tx (a_id a)
                     (\<lambda>x. x\<lparr>lastSentAt := Some now, stockAtAlert := stock invr,
                            threshold := effectiveThreshold (findRule tx iid) invr\<rparr>))
                  iid now)
               (stockCriticoNotificacion iid True (p_nombre p) (stock invr)
                  (effectiveThreshold (findRule tx iid) invr)))
      else Inr (Noop (Some cooldown), tx))"
  using assms by (auto simp: evaluateStockCriticalTx_def Let_def split: option.splits)

text \<open>
  C2 (as amended). For an inventory that is critical and has an active alert, with an
  effective cooldown of 360 minutes: the evaluation is a no-op with reason \<open>cooldown\<close>,
  leaving the store as it is, exactly when the last notification time \<open>T\<close> exists and
  \<open>now - T\<close> is at most 360 minutes; it resends exactly when there is no such time or
  \<open>now - T\<close> is strictly more than 360 minutes.
\<close>

theorem cooldown_strict_boundary:
  assumes "findInventario tx iid = Some invr"
    and "findProducto tx (productoId invr) = Some p"
    and "\<not> isFleteTipo (Some (p_tipo p))"
    and "case findRule tx iid of None \<Rightarrow> True | Some r \<Rightarrow> enabled r"
    and "effectiveCooldown (findRule tx iid) = 360"
    and "stock invr \<le> effectiveThreshold (findRule tx iid) invr"
    and "findActiveAlert tx iid = Some a"
  shows "(evaluateStockCriticalTx tx iid now = Inr (Noop (Some cooldown), tx)
           \<longleftrightarrow> (\<exists>T. lastNotified (findRule tx iid) a = Some T \<and> now - T \<le> 360 * 60 * 1000))
       \<and> ((\<exists>tx'. evaluateStockCriticalTx tx iid now = Inr (Resent (a_id a), tx'))
           \<longleftrightarrow> (lastNotified (findRule tx iid) a = None
                \<or> (\<exists>T. lastNotified (findRule tx iid) a = Some T \<and> 360 * 60 * 1000 < now - T)))"
proof -
  note ev = evaluate_active_critical[OF assms(1-4) assms(6,7), of now]
  show ?thesis
  proof (cases "lastNotified (findRule tx iid) a")
    case None
    then show ?thesis using ev assms(5) by (simp add: canResend_def)
  next
    case (Some T)
    then show ?thesis using ev assms(5) by (auto simp add: canResend_def)
  qed
qed

theorem cooldown_strict_boundary_witness:
  "evaluateStockCriticalTx alertedStore 1 (0 + 359 * 60 * 1000) = Inr (Noop (Some cooldown), alertedStore)
   \<and> (\<exists>tx'. evaluateStockCriticalTx alertedStore 1 (0 + 360 * 60 * 1000 + 1) = Inr (Resent 2, tx'))"
proof -
  let ?invr = "\<lparr>i_id = 1, productoId = 0, codigo = Some ''INV-1'', stock = 2, minimo = 5,
                 ubicacion = None\<rparr>"
  let ?p = "\<lparr>p_id = 0, p_sku = Some ''SKU-1'', p_nombre = ''Perno'', p_tipo = ''Producto'',
              precioGeneral = 100, precioConDescto = 100, p_fotoUrl = None,
              unidadMedida = ''unidad''\<rparr>"
  let ?a = "\<lparr>a_id = 2, a_inventarioId = 1, threshold = 5, stockAtAlert = 2, status = OPEN,
              isActive = True, openedAt = Some 0, lastSentAt = Some 0, resolvedAt = None,
              ackAt = None, channel = ''system'', meta = (0, ''Perno'', Some ''SKU-1'')\<rparr>"
  have h1: "findInventario alertedStore 1 = Some ?invr" by code_simp
  have h2: "findProducto alertedStore (productoId ?invr) = Some ?p" by code_simp
  have h3: "\<not> isFleteTipo (Some (p_tipo ?p))" by code_simp
  have h4: "case findRule alertedStore 1 of None \<Rightarrow> True | Some r \<Rightarrow> enabled r" by code_simp
  have h5: "effectiveCooldown (findRule alertedStore 1) = 360" by code_simp
  have h6: "stock ?invr \<le> effectiveThreshold (findRule alertedStore 1) ?invr" by code_simp
  have h7: "findActiveAlert alertedStore 1 = Some ?a" by code_simp
  have l: "lastNotified (findRule alertedStore 1) ?a = Some 0" by code_simp
  note th = cooldown_strict_boundary[OF h1 h2 h3 h4 h5 h6 h7]
  from th[of "0 + 359 * 60 * 1000"] th[of "0 + 360 * 60 * 1000 + 1"] l
  show ?thesis by simp
qed

text \<open>
  At exactly 360 minutes after the last notification (here time 0, no rule) the evaluator
  still answers no-op with reason \<open>cooldown\<close>.
\<close>

theorem cooldown_at_six_hours_counterexample:
  "map lastSentAt (alerts alertedStore) = [Some 0]
   \<and> findRule alertedStore 1 = None
   \<and> evaluateStockCriticalTx alertedStore 1 (0 + 360 * 60 * 1000)
       = Inr (Noop (Some cooldown), alertedStore)"
  by code_simp

section \<open>Acknowledging and resolving by hand\<close>

text \<open>
  C3 (as amended). Acknowledging an alert whose status is not \<open>OPEN\<close> returns the row
  as it is and writes nothing; resolving an alert whose status is \<open>RESOLVED\<close> does the
  same; resolving any other alert, an acknowledged one included, sets its status to
  \<open>RESOLVED\<close> and its \<open>resolvedAt\<close>.
\<close>

theorem ack_resolve_idempotent:
  assumes "findAlert d aid = Some a"
  shows "(status a \<noteq> OPEN \<longrightarrow> ackStockAlert d aid now = (Inr a, d))
       \<and> (status a = RESOLVED \<longrightarrow> resolveStockAlert d aid now = (Inr a, d))
       \<and> (status a \<noteq> RESOLVED \<longrightarrow>
            resolveStockAlert d aid now =
              (Inr (a\<lparr>status := RESOLVED, resolvedAt := Some now\<rparr>),
               updateAlert d aid (\<lambda>x. x\<lparr>status := RESOLVED, resolvedAt := Some now\<rparr>)))"
  using assms by (simp add: ackStockAlert_def resolveStockAlert_def Let_def)

theorem ack_resolve_idempotent_witness:
  "ackStockAlert ackedStore 2 9 = (Inr (demoAlert\<lparr>status := ACK, ackAt := Some 5\<rparr>), ackedStore)
   \<and> resolveStockAlert (snd (resolveStockAlert ackedStore 2 7)) 2 9
       = (Inr (demoAlert\<lparr>status := RESOLVED, ackAt := Some 5, resolvedAt := Some 7\<rparr>),
          snd (resolveStockAlert ackedStore 2 7))
   \<and> fst (resolveStockAlert ackedStore 2 7)
       = Inr (demoAlert\<lparr>status := RESOLVED, ackAt := Some 5, resolvedAt := Some 7\<rparr>)"
proof -
  let ?ack = "demoAlert\<lparr>status := ACK, ackAt := Some 5\<rparr>"
  let ?res = "demoAlert\<lparr>status := RESOLVED, ackAt := Some 5, resolvedAt := Some 7\<rparr>"
  have f1: "findAlert ackedStore 2 = Some ?ack" by code_simp
  have f2: "findAlert (snd (resolveStockAlert ackedStore 2 7)) 2 = Some ?res" by code_simp
  have s1: "status ?ack \<noteq> OPEN" "status ?ack \<noteq> RESOLVED" by simp_all
  have s2: "status ?res = RESOLVED" by simp
  have e: "?ack\<lparr>status := RESOLVED, resolvedAt := Some 7\<rparr> = ?res" by (simp add: demoAlert_def)
  from ack_resolve_idempotent[OF f1, of 9] ack_resolve_idempotent[OF f1, of 7]
       ack_resolve_idempotent[OF f2, of 9] s1 s2 e
  show ?thesis by simp
qed

text \<open>Resolving an acknowledged alert writes: its status and \<open>resolvedAt\<close> change.\<close>

theorem resolve_acked_alert_counterexample:
  "map status (alerts ackedStore) = [ACK]
   \<and> map status (alerts (snd (resolveStockAlert ackedStore 2 9))) = [RESOLVED]
   \<and> map resolvedAt (alerts ackedStore) = [None]
   \<and> map resolvedAt (alerts (snd (resolveStockAlert ackedStore 2 9))) = [Some 9]"
  by code_simp

section \<open>Resolved alerts and the active flag\<close>

text \<open>The evaluator's own resolution closes the alert it resolves.\<close>

lemma evaluate_resolved_closes:
  assumes "evaluateStockCriticalTx tx iid now = Inr (Resolved k, tx')"
    and "x \<in> set (alerts tx')" and "a_id x = k"
  shows "status x = RESOLVED \<and> \<not> isActive x \<and> resolvedAt x = Some now"
proof -
  define g where "g = (\<lambda>y::stockAlert. if a_id y = k
             then y\<lparr>status := RESOLVED, isActive := False, resolvedAt := Some now\<rparr> else y)"
  from assms(1) have
    "tx' = updateAlert tx k (\<lambda>y. y\<lparr>status := RESOLVED, isActive := False, resolvedAt := Some now\<rparr>)"
    by (auto simp: evaluateStockCriticalTx_def Let_def split: if_splits option.splits)
  then have "alerts tx' = map g (alerts tx)"
    by (simp add: updateAlert_def g_def)
  with assms(2) have "x \<in> g ` set (alerts tx)" by simp
  then obtain y where x: "x = g y" by blast
  show ?thesis
  proof (cases "a_id y = k")
    case True
    with x show ?thesis by (simp add: g_def)
  next
    case False
    with x assms(3) show ?thesis by (simp add: g_def)
  qed
qed

text \<open>
  C4, at the failing input. The store with the open, active alert 2 is reachable, and so
  is the store after the manual resolution of that alert at time 9; there the alert has
  status \<open>RESOLVED\<close> and \<open>resolvedAt\<close> set, and \<open>isActive\<close> is still true.
\<close>

theorem manual_resolve_leaves_alert_active:
  "reachable (snd (resolveStockAlert alertedStore 2 9))
   \<and> map (\<lambda>a. (status a, isActive a, resolvedAt a)) (alerts alertedStore) = [(OPEN, True, None)]
   \<and> map (\<lambda>a. (status a, isActive a, resolvedAt a)) (alerts (snd (resolveStockAlert alertedStore 2 9)))
       = [(RESOLVED, True, Some 9)]"
proof -
  have "reachable alertedStore"
    unfolding alertedStore_def by (rule r_step[OF r_init s_evaluate]) (simp add: demoStore_def)
  then have "reachable (snd (resolveStockAlert alertedStore 2 9))"
    by (rule r_step) (rule s_resolve)
  moreover have
    "map (\<lambda>a. (status a, isActive a, resolvedAt a)) (alerts alertedStore) = [(OPEN, True, None)]"
    by code_simp
  moreover have
    "map (\<lambda>a. (status a, isActive a, resolvedAt a)) (alerts (snd (resolveStockAlert alertedStore 2 9)))
       = [(RESOLVED, True, Some 9)]"
    by code_simp
  ultimately show ?thesis by simp
qed

section \<open>Stock movements\<close>

lemma evaluate_returns:
  assumes "findInventario tx iid = Some invr" and "findProducto tx (productoId invr) = Some p"
  shows "\<exists>r tx'. evaluateStockCriticalTx tx iid now = Inr (r, tx')"
  using assms by (auto simp: evaluateStockCriticalTx_def Let_def split: option.splits)

lemma evaluate_keeps_tables:
  assumes "evaluateStockCriticalTx tx iid now = Inr (r, tx')"
  shows "inventarios tx' = inventarios tx \<and> productos tx' = productos tx
       \<and> movimientos tx' = movimientos tx"
  using assms
  by (auto simp: evaluateStockCriticalTx_def Let_def updateAlert_def stampRule_def
        updateRule_def createNotificacion_def split: option.splits if_splits)

lemma find_map_update:
  assumes "\<And>x. key (g x) = key x"
  shows "find (\<lambda>x. key x = k) (map (\<lambda>x. if key x = k then g x else x) xs)
         = map_option g (find (\<lambda>x. key x = k) xs)"
  using assms by (induction xs) auto

lemma i_id_applyData [simp]: "i_id (applyData dat i) = i_id i"
  by (simp add: applyData_def)

lemma productoId_applyData [simp]: "productoId (applyData dat i) = productoId i"
  by (simp add: applyData_def)

lemma inventarioUpdateRow_stock:
  assumes "findInventario tx iid = Some cur" and "int4 n"
  shows "inventarioUpdateRow tx iid (noData\<lparr>u_stock := Some n\<rparr>)
         = Inr (cur\<lparr>stock := n\<rparr>,
                tx\<lparr>inventarios := map (\<lambda>i. if i_id i = iid then i\<lparr>stock := n\<rparr> else i) (inventarios tx)\<rparr>)"
  using assms by (simp add: inventarioUpdateRow_def noData_def applyData_def)

lemma inventarioUpdateRow_stock_range:
  "\<not> int4 n \<Longrightarrow> inventarioUpdateRow tx iid (noData\<lparr>u_stock := Some n\<rparr>) = Inl OUT_OF_RANGE"
  by (simp add: inventarioUpdateRow_def noData_def)

lemma findInventario_after_stock:
  "findInventario (tx\<lparr>inventarios := map (\<lambda>i. if i_id i = iid then i\<lparr>stock := n\<rparr> else i) (inventarios tx)\<rparr>) iid
   = map_option (\<lambda>i. i\<lparr>stock := n\<rparr>) (findInventario tx iid)"
  unfolding findInventario_def by (simp add: find_map_update[where key = i_id and g = "\<lambda>i. i\<lparr>stock := n\<rparr>"])

text \<open>What a movement does, step by step, on an inventory whose product row exists.\<close>

lemma createMovimientoStockTx_accepts:
  assumes inv: "findInventario tx (d_inventarioId dat) = Some invr"
    and prd: "findProducto tx (productoId invr) = Some p"
    and nf: "\<not> isFleteTipo (Some (p_tipo p))"
    and nn: "0 \<le> nuevoStockDe (d_tipo dat) (stock invr) (d_cantidad dat)"
    and rq: "int4 (d_cantidad dat)"
    and rn: "int4 (nuevoStockDe (d_tipo dat) (stock invr) (d_cantidad dat))"
  shows "\<exists>sc tx'. createMovimientoStockTx dat now tx =
           Inr ((\<lparr>m_inventarioId = d_inventarioId dat, m_tipo = d_tipo dat,
                  cantidad = d_cantidad dat, nota = d_nota dat\<rparr>,
                 invr\<lparr>stock := nuevoStockDe (d_tipo dat) (stock invr) (d_cantidad dat)\<rparr>, sc), tx')
         \<and> findInventario tx' (d_inventarioId dat)
             = Some (invr\<lparr>stock := nuevoStockDe (d_tipo dat) (stock invr) (d_cantidad dat)\<rparr>)
         \<and> movimientos tx' = movimientos tx @ [\<lparr>m_inventarioId = d_inventarioId dat, m_tipo = d_tipo dat,
                  cantidad = d_cantidad dat, nota = d_nota dat\<rparr>]"
proof -
  let ?n = "nuevoStockDe (d_tipo dat) (stock invr) (d_cantidad dat)"
  let ?mov = "\<lparr>m_inventarioId = d_inventarioId dat, m_tipo = d_tipo dat,
                  cantidad = d_cantidad dat, nota = d_nota dat\<rparr>"
  let ?tx1 = "tx\<lparr>movimientos := movimientos tx @ [?mov]\<rparr>"
  let ?tx2 = "?tx1\<lparr>inventarios := map (\<lambda>i. if i_id i = d_inventarioId dat then i\<lparr>stock := ?n\<rparr> else i)
                                      (inventarios ?tx1)\<rparr>"
  have mc: "movimientoCreateRow tx ?mov = Inr (?mov, ?tx1)"
    using rq by (simp add: movimientoCreateRow_def)
  have inv1: "findInventario ?tx1 (d_inventarioId dat) = Some invr"
    using inv by (simp add: findInventario_def)
  have upd: "inventarioUpdateRow ?tx1 (d_inventarioId dat) (noData\<lparr>u_stock := Some ?n\<rparr>)
             = Inr (invr\<lparr>stock := ?n\<rparr>, ?tx2)"
    using inv1 rn by (rule inventarioUpdateRow_stock)
  have inv2: "findInventario ?tx2 (d_inventarioId dat) = Some (invr\<lparr>stock := ?n\<rparr>)"
    using inv1 by (simp only: findInventario_after_stock) simp
  have prd2: "findProducto ?tx2 (productoId (invr\<lparr>stock := ?n\<rparr>)) = Some p"
    using prd by (simp add: findProducto_def)
  from evaluate_returns[OF inv2 prd2] obtain sc tx' where
    ev: "evaluateStockCriticalTx ?tx2 (d_inventarioId dat) now = Inr (sc, tx')" by blast
  from evaluate_keeps_tables[OF ev] have keep: "inventarios tx' = inventarios ?tx2"
    "movimientos tx' = movimientos ?tx2" by simp_all
  have "createMovimientoStockTx dat now tx = Inr ((?mov, invr\<lparr>stock := ?n\<rparr>, sc), tx')"
    using inv prd nf nn mc upd ev by (simp add: createMovimientoStockTx_def Let_def)
  moreover have "findInventario tx' (d_inventarioId dat) = Some (invr\<lparr>stock := ?n\<rparr>)"
    using inv2 keep(1) by (simp add: findInventario_def)
  moreover have "movimientos tx' = movimientos tx @ [?mov]" using keep(2) by simp
  ultimately show ?thesis by blast
qed

lemma createMovimientoStockTx_range:
  assumes inv: "findInventario tx (d_inventarioId dat) = Some invr"
    and nf: "\<not> isFleteTipo (map_option p_tipo (findProducto tx (productoId invr)))"
    and nn: "0 \<le> nuevoStockDe (d_tipo dat) (stock invr) (d_cantidad dat)"
    and out: "\<not> int4 (d_cantidad dat)
              \<or> \<not> int4 (nuevoStockDe (d_tipo dat) (stock invr) (d_cantidad dat))"
  shows "createMovimientoStockTx dat now tx = Inl OUT_OF_RANGE"
proof (cases "int4 (d_cantidad dat)")
  case False
  with inv nf nn show ?thesis
    by (simp add: createMovimientoStockTx_def Let_def movimientoCreateRow_def)
next
  case True
  with out have "\<not> int4 (nuevoStockDe (d_tipo dat) (stock invr) (d_cantidad dat))" by simp
  with inv nf nn True show ?thesis
    by (simp add: createMovimientoStockTx_def Let_def movimientoCreateRow_def
          inventarioUpdateRow_stock_range)
qed

lemma createMovimientoStock_cases:
  assumes fk: "productoPresente d (d_inventarioId dat)"
  shows "(findInventario d (d_inventarioId dat) = None
            \<and> createMovimientoStock d dat now = (Inl INV_NOT_FOUND, d))
       \<or> (\<exists>invr. findInventario d (d_inventarioId dat) = Some invr
            \<and> isFleteTipo (map_option p_tipo (findProducto d (productoId invr)))
            \<and> createMovimientoStock d dat now = (Inl PRODUCTO_ES_FLETE, d))
       \<or> (\<exists>invr. findInventario d (d_inventarioId dat) = Some invr
            \<and> \<not> isFleteTipo (map_option p_tipo (findProducto d (productoId invr)))
            \<and> nuevoStockDe (d_tipo dat) (stock invr) (d_cantidad dat) < 0
            \<and> createMovimientoStock d dat now = (Inl STOCK_NEGATIVO, d))
       \<or> (\<exists>invr. findInventario d (d_inventarioId dat) = Some invr
            \<and> \<not> isFleteTipo (map_option p_tipo (findProducto d (productoId invr)))
            \<and> 0 \<le> nuevoStockDe (d_tipo dat) (stock invr) (d_cantidad dat)
            \<and> (\<not> int4 (d_cantidad dat)
                 \<or> \<not> int4 (nuevoStockDe (d_tipo dat) (stock invr) (d_cantidad dat)))
            \<and> createMovimientoStock d dat now = (Inl OUT_OF_RANGE, d))
       \<or> (\<exists>invr mov sc d'. findInventario d (d_inventarioId dat) = Some invr
            \<and> \<not> isFleteTipo (map_option p_tipo (findProducto d (productoId invr)))
            \<and> 0 \<le> nuevoStockDe (d_tipo dat) (stock invr) (d_cantidad dat)
            \<and> int4 (d_cantidad dat)
            \<and> int4 (nuevoStockDe (d_tipo dat) (stock invr) (d_cantidad dat))
            \<and> createMovimientoStock d dat now =
                 (Inr (mov, invr\<lparr>stock := nuevoStockDe (d_tipo dat) (stock invr) (d_cantidad dat)\<rparr>, sc), d')
            \<and> findInventario d' (d_inventarioId dat)
                 = Some (invr\<lparr>stock := nuevoStockDe (d_tipo dat) (stock invr) (d_cantidad dat)\<rparr>)
            \<and> movimientos d' = movimientos d @ [mov])"
proof (cases "findInventario d (d_inventarioId dat)")
  case None
  then show ?thesis
    by (simp add: createMovimientoStock_def transaction_def createMovimientoStockTx_def)
next
  case (Some invr)
  with fk obtain p where p: "findProducto d (productoId invr) = Some p"
    by (auto simp: productoPresente_def)
  show ?thesis
  proof (cases "isFleteTipo (Some (p_tipo p))")
    case True
    with Some p show ?thesis
      by (simp add: createMovimientoStock_def transaction_def createMovimientoStockTx_def)
  next
    case nf: False
    show ?thesis
    proof (cases "nuevoStockDe (d_tipo dat) (stock invr) (d_cantidad dat) < 0")
      case True
      with Some p nf show ?thesis
        by (simp add: createMovimientoStock_def transaction_def createMovimientoStockTx_def Let_def)
    next
      case False
      then have nn: "0 \<le> nuevoStockDe (d_tipo dat) (stock invr) (d_cantidad dat)" by simp
      show ?thesis
      proof (cases "int4 (d_cantidad dat)
                    \<and> int4 (nuevoStockDe (d_tipo dat) (stock invr) (d_cantidad dat))")
        case out: False
        have nf': "\<not> isFleteTipo (map_option p_tipo (findProducto d (productoId invr)))"
          using p nf by simp
        from out have "\<not> int4 (d_cantidad dat)
              \<or> \<not> int4 (nuevoStockDe (d_tipo dat) (stock invr) (d_cantidad dat))" by simp
        from createMovimientoStockTx_range[OF Some nf' nn this, of now] Some p nf nn out
        show ?thesis by (simp add: createMovimientoStock_def transaction_def)
      next
        case True
        then have rq: "int4 (d_cantidad dat)"
          and rn: "int4 (nuevoStockDe (d_tipo dat) (stock invr) (d_cantidad dat))" by simp_all
        from createMovimientoStockTx_accepts[OF Some p nf nn rq rn, of now]
        obtain sc tx' where
          "createMovimientoStockTx dat now d =
             Inr ((\<lparr>m_inventarioId = d_inventarioId dat, m_tipo = d_tipo dat,
                    cantidad = d_cantidad dat, nota = d_nota dat\<rparr>,
                   invr\<lparr>stock := nuevoStockDe (d_tipo dat) (stock invr) (d_cantidad dat)\<rparr>, sc), tx')"
          "findInventario tx' (d_inventarioId dat)
               = Some (invr\<lparr>stock := nuevoStockDe (d_tipo dat) (stock invr) (d_cantidad dat)\<rparr>)"
          "movimientos tx' = movimientos d @ [\<lparr>m_inventarioId = d_inventarioId dat, m_tipo = d_tipo dat,
                    cantidad = d_cantidad dat, nota = d_nota dat\<rparr>]"
          by blast
        with Some p nf nn rq rn show ?thesis
          by (simp add: createMovimientoStock_def transaction_def)
      qed
    qed
  qed
qed

text \<open>
  C6 (as amended). On a store where the product row of the inventory exists, a movement
  is rejected with \<open>INV_NOT_FOUND\<close> exactly when the inventory does not exist, with
  \<open>PRODUCTO_ES_FLETE\<close> exactly when the type of its product contains \<open>flet\<close>, with
  \<open>STOCK_NEGATIVO\<close> exactly when the computed stock is negative, and otherwise fails
  exactly when the quantity or the computed stock is outside the 32-bit range of the
  columns; there is no other rejection, a rejection leaves the whole store as it was, and
  a completed movement appends its row and persists a stock that is not negative.
\<close>

theorem movement_rejections:
  assumes fk: "productoPresente d (d_inventarioId dat)"
  shows "(fst (createMovimientoStock d dat now) = Inl INV_NOT_FOUND
            \<longleftrightarrow> findInventario d (d_inventarioId dat) = None)
       \<and> (fst (createMovimientoStock d dat now) = Inl PRODUCTO_ES_FLETE
            \<longleftrightarrow> (\<exists>invr p. findInventario d (d_inventarioId dat) = Some invr
                  \<and> findProducto d (productoId invr) = Some p
                  \<and> includesStr (toLowerCase (p_tipo p)) ''flet''))
       \<and> (fst (createMovimientoStock d dat now) = Inl STOCK_NEGATIVO
            \<longleftrightarrow> (\<exists>invr. findInventario d (d_inventarioId dat) = Some invr
                  \<and> \<not> isFleteTipo (map_option p_tipo (findProducto d (productoId invr)))
                  \<and> nuevoStockDe (d_tipo dat) (stock invr) (d_cantidad dat) < 0))
       \<and> (fst (createMovimientoStock d dat now) = Inl OUT_OF_RANGE
            \<longleftrightarrow> (\<exists>invr. findInventario d (d_inventarioId dat) = Some invr
                  \<and> \<not> isFleteTipo (map_option p_tipo (findProducto d (productoId invr)))
                  \<and> 0 \<le> nuevoStockDe (d_tipo dat) (stock invr) (d_cantidad dat)
                  \<and> (\<not> int4 (d_cantidad dat)
                       \<or> \<not> int4 (nuevoStockDe (d_tipo dat) (stock invr) (d_cantidad dat)))))
       \<and> (\<forall>e. fst (createMovimientoStock d dat now) = Inl e \<longrightarrow>
              (e = INV_NOT_FOUND \<or> e = PRODUCTO_ES_FLETE \<or> e = STOCK_NEGATIVO \<or> e = OUT_OF_RANGE)
              \<and> snd (createMovimientoStock d dat now) = d)
       \<and> (\<forall>mov updatedInv sc. fst (createMovimientoStock d dat now) = Inr (mov, updatedInv, sc) \<longrightarrow>
              0 \<le> stock updatedInv
              \<and> findInventario (snd (createMovimientoStock d dat now)) (d_inventarioId dat) = Some updatedInv
              \<and> movimientos (snd (createMovimientoStock d dat now)) = movimientos d @ [mov])"
proof -
  have fl: "\<And>invr. findInventario d (d_inventarioId dat) = Some invr \<Longrightarrow>
             isFleteTipo (map_option p_tipo (findProducto d (productoId invr)))
             \<longleftrightarrow> (\<exists>p. findProducto d (productoId invr) = Some p
                      \<and> includesStr (toLowerCase (p_tipo p)) ''flet'')"
    using fk by (auto simp: productoPresente_def isFleteTipo_def)
  from createMovimientoStock_cases[OF fk, of now] show ?thesis
    by (elim disjE exE conjE) (simp_all add: fl)
qed

theorem movement_rejections_witness:
  "fst (createMovimientoStock demoStore (demoMovimiento Salida 3) 0) = Inl STOCK_NEGATIVO
   \<and> snd (createMovimientoStock demoStore (demoMovimiento Salida 3) 0) = demoStore"
proof -
  let ?invr = "\<lparr>i_id = 1, productoId = 0, codigo = Some ''INV-1'', stock = 2, minimo = 5,
                 ubicacion = None\<rparr>"
  have fk: "productoPresente demoStore (d_inventarioId (demoMovimiento Salida 3))" by code_simp
  have f: "findInventario demoStore (d_inventarioId (demoMovimiento Salida 3)) = Some ?invr"
    by code_simp
  have nf: "\<not> isFleteTipo (map_option p_tipo (findProducto demoStore (productoId ?invr)))"
    by code_simp
  have neg: "nuevoStockDe (d_tipo (demoMovimiento Salida 3)) (stock ?invr)
               (d_cantidad (demoMovimiento Salida 3)) < 0"
    by code_simp
  from f nf neg have
    "\<exists>invr. findInventario demoStore (d_inventarioId (demoMovimiento Salida 3)) = Some invr
       \<and> \<not> isFleteTipo (map_option p_tipo (findProducto demoStore (productoId invr)))
       \<and> nuevoStockDe (d_tipo (demoMovimiento Salida 3)) (stock invr)
            (d_cantidad (demoMovimiento Salida 3)) < 0"
    by blast
  with movement_rejections[OF fk, of 0] show ?thesis by blast
qed

text \<open>
  Two movements on an inventory of stock 2 that exists. An entry of 3000000000 passes
  the three checks and fails at the write, with none of the three codes. An exit of 1 on
  an inventory whose product is of the type \<open>Servicio\<close> is accepted, and the evaluator
  opens an alert for it.
\<close>

theorem movement_rejections_counterexample:
  "map stock (inventarios demoStore) = [2]
   \<and> map p_tipo (productos demoStore) = [''Producto'']
   \<and> fst (createMovimientoStock demoStore (demoMovimiento Entrada 3000000000) 0) = Inl OUT_OF_RANGE
   \<and> map p_tipo (productos servicioStore) = [''Servicio'']
   \<and> map_sum id (\<lambda>r. (stock (fst (snd r)), snd (snd r)))
        (fst (createMovimientoStock servicioStore (demoMovimiento Salida 1) 0))
       = Inr (1, Created 2)"
  by code_simp

text \<open>
  C8. On an inventory of stock \<open>s\<close> whose product row exists, let \<open>n\<close> be \<open>s + q\<close> for an
  entry of quantity \<open>q\<close>, \<open>s - q\<close> for an exit and \<open>q\<close> for an adjustment. If the
  product is not freight, \<open>n\<close> is not negative and \<open>q\<close> and \<open>n\<close> fit the columns, the
  movement is accepted and returns and persists the stock \<open>n\<close>; and whenever a movement
  is accepted, the stock it returns and persists is \<open>n\<close>.
\<close>

theorem movement_new_stock:
  assumes "findInventario d (d_inventarioId dat) = Some invr"
    and "findProducto d (productoId invr) = Some p"
    and "n = (case d_tipo dat of
                Entrada \<Rightarrow> stock invr + d_cantidad dat
              | Salida \<Rightarrow> stock invr - d_cantidad dat
              | Ajuste \<Rightarrow> d_cantidad dat)"
  shows "(\<not> includesStr (toLowerCase (p_tipo p)) ''flet'' \<and> 0 \<le> n \<and> int4 n \<and> int4 (d_cantidad dat) \<longrightarrow>
            (\<exists>mov sc. fst (createMovimientoStock d dat now) = Inr (mov, invr\<lparr>stock := n\<rparr>, sc))
            \<and> findInventario (snd (createMovimientoStock d dat now)) (d_inventarioId dat)
                = Some (invr\<lparr>stock := n\<rparr>))
       \<and> (\<forall>mov updatedInv sc. fst (createMovimientoStock d dat now) = Inr (mov, updatedInv, sc) \<longrightarrow>
            stock updatedInv = n
            \<and> map_option stock (findInventario (snd (createMovimientoStock d dat now)) (d_inventarioId dat))
                = Some n)"
proof -
  have fk: "productoPresente d (d_inventarioId dat)"
    using assms(1,2) by (simp add: productoPresente_def)
  have n: "nuevoStockDe (d_tipo dat) (stock invr) (d_cantidad dat) = n"
    unfolding assms(3) by (cases "d_tipo dat") (simp_all add: nuevoStockDe_def)
  have fl: "isFleteTipo (map_option p_tipo (findProducto d (productoId invr)))
            \<longleftrightarrow> includesStr (toLowerCase (p_tipo p)) ''flet''"
    using assms(2) by (simp add: isFleteTipo_def)
  from createMovimientoStock_cases[OF fk, of now] assms(1) n fl show ?thesis
    by (elim disjE exE conjE) auto
qed

theorem movement_new_stock_witness:
  "map_option stock
      (findInventario (snd (createMovimientoStock alertedStore (demoMovimiento Entrada 10) 7)) 1)
     = Some 12
   \<and> map_option stock
      (findInventario (snd (createMovimientoStock alertedStore (demoMovimiento Salida 1) 7)) 1)
     = Some 1
   \<and> map_option stock
      (findInventario (snd (createMovimientoStock alertedStore (demoMovimiento Ajuste 7) 7)) 1)
     = Some 7"
proof -
  let ?invr = "\<lparr>i_id = 1, productoId = 0, codigo = Some ''INV-1'', stock = 2, minimo = 5,
                 ubicacion = None\<rparr>"
  let ?p = "\<lparr>p_id = 0, p_sku = Some ''SKU-1'', p_nombre = ''Perno'', p_tipo = ''Producto'',
              precioGeneral = 100, precioConDescto = 100, p_fotoUrl = None,
              unidadMedida = ''unidad''\<rparr>"
  have f: "findInventario alertedStore (d_inventarioId (demoMovimiento t q)) = Some ?invr" for t q
    unfolding demoMovimiento_def by code_simp
  have p: "findProducto alertedStore (productoId ?invr) = Some ?p" by code_simp
  have nf: "\<not> includesStr (toLowerCase (p_tipo ?p)) ''flet''" by code_simp
  have id1: "d_inventarioId (demoMovimiento t q) = 1" for t q by (simp add: demoMovimiento_def)
  have e: "(12::int) = (case d_tipo (demoMovimiento Entrada 10) of
                Entrada \<Rightarrow> stock ?invr + d_cantidad (demoMovimiento Entrada 10)
              | Salida \<Rightarrow> stock ?invr - d_cantidad (demoMovimiento Entrada 10)
              | Ajuste \<Rightarrow> d_cantidad (demoMovimiento Entrada 10))"
    by (simp add: demoMovimiento_def)
  have s: "(1::int) = (case d_tipo (demoMovimiento Salida 1) of
                Entrada \<Rightarrow> stock ?invr + d_cantidad (demoMovimiento Salida 1)
              | Salida \<Rightarrow> stock ?invr - d_cantidad (demoMovimiento Salida 1)
              | Ajuste \<Rightarrow> d_cantidad (demoMovimiento Salida 1))"
    by (simp add: demoMovimiento_def)
  have a: "(7::int) = (case d_tipo (demoMovimiento Ajuste 7) of
                Entrada \<Rightarrow> stock ?invr + d_cantidad (demoMovimiento Ajuste 7)
              | Salida \<Rightarrow> stock ?invr - d_cantidad (demoMovimiento Ajuste 7)
              | Ajuste \<Rightarrow> d_cantidad (demoMovimiento Ajuste 7))"
    by (simp add: demoMovimiento_def)
  have r: "int4 12" "int4 10" "int4 1" "int4 7" by (simp_all add: int4_def)
  have q: "d_cantidad (demoMovimiento t q) = q" for t q by (simp add: demoMovimiento_def)
  from movement_new_stock[OF f p e, of 7] movement_new_stock[OF f p s, of 7]
       movement_new_stock[OF f p a, of 7] nf r
  show ?thesis by (simp add: id1 q)
qed

section \<open>The threshold\<close>

text \<open>
  C7. On an inventory that exists, whose product is not freight and whose rule, if any,
  is enabled, the evaluation returns, and its outcome is a critical one exactly when
  \<open>stock \<le> threshold\<close>, the threshold being the override of the rule when there is
  one and the minimum of the inventory otherwise.
\<close>

theorem critical_iff_stock_le_threshold:
  assumes "findInventario tx iid = Some invr"
    and "findProducto tx (productoId invr) = Some p"
    and "\<not> isFleteTipo (Some (p_tipo p))"
    and "case findRule tx iid of None \<Rightarrow> True | Some r \<Rightarrow> enabled r"
  shows "\<exists>r tx'. evaluateStockCriticalTx tx iid now = Inr (r, tx')
           \<and> (criticalOutcome r \<longleftrightarrow>
                stock invr \<le> (case findRule tx iid of
                                None \<Rightarrow> minimo invr
                              | Some rule \<Rightarrow> (case thresholdOverride rule of
                                               None \<Rightarrow> minimo invr
                                             | Some t \<Rightarrow> t)))"
  using assms
  by (auto simp: evaluateStockCriticalTx_def Let_def criticalOutcome_def effectiveThreshold_def
           split: option.splits)

theorem critical_iff_stock_le_threshold_witness:
  "(\<exists>r tx'. evaluateStockCriticalTx (overrideStore 5) 1 0 = Inr (r, tx') \<and> criticalOutcome r)
   \<and> (\<exists>r tx'. evaluateStockCriticalTx (overrideStore 6) 1 0 = Inr (r, tx') \<and> \<not> criticalOutcome r)"
proof -
  let ?p = "\<lparr>p_id = 0, p_sku = Some ''SKU-1'', p_nombre = ''Perno'', p_tipo = ''Producto'',
              precioGeneral = 100, precioConDescto = 100, p_fotoUrl = None,
              unidadMedida = ''unidad''\<rparr>"
  let ?rule = "\<lparr>r_inventarioId = 1, enabled = True, thresholdOverride = Some 5,
                 cooldownMinutes = None, lastNotifiedAt = None\<rparr>"
  let ?i5 = "\<lparr>i_id = 1, productoId = 0, codigo = Some ''INV-1'', stock = 5, minimo = 0,
               ubicacion = None\<rparr>"
  let ?i6 = "\<lparr>i_id = 1, productoId = 0, codigo = Some ''INV-1'', stock = 6, minimo = 0,
               ubicacion = None\<rparr>"
  have a5: "findInventario (overrideStore 5) 1 = Some ?i5" by code_simp
  have b5: "findProducto (overrideStore 5) (productoId ?i5) = Some ?p" by code_simp
  have r5: "findRule (overrideStore 5) 1 = Some ?rule" by code_simp
  have a6: "findInventario (overrideStore 6) 1 = Some ?i6" by code_simp
  have b6: "findProducto (overrideStore 6) (productoId ?i6) = Some ?p" by code_simp
  have r6: "findRule (overrideStore 6) 1 = Some ?rule" by code_simp
  have nf: "\<not> isFleteTipo (Some (p_tipo ?p))" by code_simp
  have e5: "case findRule (overrideStore 5) 1 of None \<Rightarrow> True | Some r \<Rightarrow> enabled r"
    by code_simp
  have e6: "case findRule (overrideStore 6) 1 of None \<Rightarrow> True | Some r \<Rightarrow> enabled r"
    by code_simp
  from critical_iff_stock_le_threshold[OF a5 b5 nf e5, of 0]
       critical_iff_stock_le_threshold[OF a6 b6 nf e6, of 0] r5 r6
  show ?thesis by simp
qed

section \<open>Direct creation and edit\<close>

lemma alerts_etc_inventarioUpdateRow:
  "inventarioUpdateRow tx iid dat = Inr (r, tx') \<Longrightarrow>
     alerts tx' = alerts tx \<and> notificaciones tx' = notificaciones tx
     \<and> criticalRules tx' = criticalRules tx"
  by (auto simp: inventarioUpdateRow_def split: option.splits if_splits)

lemma updateInventario_touched:
  assumes "findInventario d iid = Some current"
    and "assertProductoNoEsFlete d (productoId current) = Inr ()"
    and "inventarioUpdateRow d iid (normalizeInventarioUpdate parsed) = Inr (actualizado, d1)"
  shows "(b_stock parsed = None \<and> b_minimo parsed = None \<longrightarrow>
            updateInventario d iid parsed now = (Inr (actualizado, Noop None), d1)
            \<and> alerts d1 = alerts d \<and> notificaciones d1 = notificaciones d
            \<and> criticalRules d1 = criticalRules d)
       \<and> (b_stock parsed \<noteq> None \<or> b_minimo parsed \<noteq> None \<longrightarrow>
            fst (updateInventario d iid parsed now)
              = map_sum id (\<lambda>sc. (actualizado, sc)) (fst (evaluateStockCritical d1 iid now))
            \<and> snd (updateInventario d iid parsed now) = snd (evaluateStockCritical d1 iid now))"
proof -
  have t: "u_stock (normalizeInventarioUpdate parsed) = b_stock parsed"
          "u_minimo (normalizeInventarioUpdate parsed) = b_minimo parsed"
    by (simp_all add: normalizeInventarioUpdate_def)
  from alerts_etc_inventarioUpdateRow[OF assms(3)] assms t show ?thesis
    by (auto simp: updateInventario_def Let_def split: prod.splits sum.splits)
qed

lemma createInventario_evaluates:
  assumes "assertProductoNoEsFlete d (c_productoId cparsed) = Inr ()"
    and "inventarioCreateRow d (c_productoId cparsed) (emptyToNull (c_codigo cparsed))
           (emptyToNull (c_ubicacion cparsed)) (c_stock cparsed) (c_minimo cparsed) = Inr (nuevo, d2)"
  shows "fst (createInventario d cparsed now)
            = map_sum id (\<lambda>sc. (nuevo, sc)) (fst (evaluateStockCritical d2 (i_id nuevo) now))
       \<and> snd (createInventario d cparsed now) = snd (evaluateStockCritical d2 (i_id nuevo) now)"
  using assms by (auto simp: createInventario_def split: prod.splits sum.splits)

text \<open>
  C5 (as amended). An edit that passes its checks and whose row update succeeds runs the
  evaluator exactly when the request carries a \<open>stock\<close> or a \<open>minimo\<close> field, whatever
  the value: without either field it answers \<open>noop\<close> and leaves alerts, notifications and
  rules as they were; with one of them its answer and its final store are those of an
  evaluation on the store the update left. A creation that passes its check and whose
  row is written always runs the evaluator in the same way on the store with the new
  row. The two parts stand on their own stores.
\<close>

theorem edit_evaluates_when_touched:
  "(findInventario d iid = Some current
      \<and> assertProductoNoEsFlete d (productoId current) = Inr ()
      \<and> inventarioUpdateRow d iid (normalizeInventarioUpdate parsed) = Inr (actualizado, d1)
    \<longrightarrow> (b_stock parsed = None \<and> b_minimo parsed = None \<longrightarrow>
            updateInventario d iid parsed now = (Inr (actualizado, Noop None), d1)
            \<and> alerts d1 = alerts d \<and> notificaciones d1 = notificaciones d
            \<and> criticalRules d1 = criticalRules d)
       \<and> (b_stock parsed \<noteq> None \<or> b_minimo parsed \<noteq> None \<longrightarrow>
            fst (updateInventario d iid parsed now)
              = map_sum id (\<lambda>sc. (actualizado, sc)) (fst (evaluateStockCritical d1 iid now))
            \<and> snd (updateInventario d iid parsed now) = snd (evaluateStockCritical d1 iid now)))
   \<and> (assertProductoNoEsFlete dc (c_productoId cparsed) = Inr ()
      \<and> inventarioCreateRow dc (c_productoId cparsed) (emptyToNull (c_codigo cparsed))
           (emptyToNull (c_ubicacion cparsed)) (c_stock cparsed) (c_minimo cparsed) = Inr (nuevo, d2)
    \<longrightarrow> fst (createInventario dc cparsed tc)
            = map_sum id (\<lambda>sc. (nuevo, sc)) (fst (evaluateStockCritical d2 (i_id nuevo) tc))
       \<and> snd (createInventario dc cparsed tc) = snd (evaluateStockCritical d2 (i_id nuevo) tc))"
proof (intro conjI impI)
  assume h: "findInventario d iid = Some current
      \<and> assertProductoNoEsFlete d (productoId current) = Inr ()
      \<and> inventarioUpdateRow d iid (normalizeInventarioUpdate parsed) = Inr (actualizado, d1)"
  then have h1: "findInventario d iid = Some current"
    and h2: "assertProductoNoEsFlete d (productoId current) = Inr ()"
    and h3: "inventarioUpdateRow d iid (normalizeInventarioUpdate parsed) = Inr (actualizado, d1)"
    by blast+
  have u: "(b_stock parsed = None \<and> b_minimo parsed = None \<longrightarrow>
            updateInventario d iid parsed now = (Inr (actualizado, Noop None), d1)
            \<and> alerts d1 = alerts d \<and> notificaciones d1 = notificaciones d
            \<and> criticalRules d1 = criticalRules d)
       \<and> (b_stock parsed \<noteq> None \<or> b_minimo parsed \<noteq> None \<longrightarrow>
            fst (updateInventario d iid parsed now)
              = map_sum id (\<lambda>sc. (actualizado, sc)) (fst (evaluateStockCritical d1 iid now))
            \<and> snd (updateInventario d iid parsed now) = snd (evaluateStockCritical d1 iid now))"
    using h1 h2 h3 by (rule updateInventario_touched)
  {
    assume "b_stock parsed = None \<and> b_minimo parsed = None"
    with u show "updateInventario d iid parsed now = (Inr (actualizado, Noop None), d1)"
      and "alerts d1 = alerts d" and "notificaciones d1 = notificaciones d"
      and "criticalRules d1 = criticalRules d" by simp_all
  }
  {
    assume "b_stock parsed \<noteq> None \<or> b_minimo parsed \<noteq> None"
    with u show "fst (updateInventario d iid parsed now)
              = map_sum id (\<lambda>sc. (actualizado, sc)) (fst (evaluateStockCritical d1 iid now))"
      and "snd (updateInventario d iid parsed now) = snd (evaluateStockCritical d1 iid now)"
      by blast+
  }
next
  assume h: "assertProductoNoEsFlete dc (c_productoId cparsed) = Inr ()
      \<and> inventarioCreateRow dc (c_productoId cparsed) (emptyToNull (c_codigo cparsed))
           (emptyToNull (c_ubicacion cparsed)) (c_stock cparsed) (c_minimo cparsed) = Inr (nuevo, d2)"
  then have g1: "assertProductoNoEsFlete dc (c_productoId cparsed) = Inr ()"
    and g2: "inventarioCreateRow dc (c_productoId cparsed) (emptyToNull (c_codigo cparsed))
           (emptyToNull (c_ubicacion cparsed)) (c_stock cparsed) (c_minimo cparsed) = Inr (nuevo, d2)"
    by blast+
  have c: "fst (createInventario dc cparsed tc)
            = map_sum id (\<lambda>sc. (nuevo, sc)) (fst (evaluateStockCritical d2 (i_id nuevo) tc))
       \<and> snd (createInventario dc cparsed tc) = snd (evaluateStockCritical d2 (i_id nuevo) tc)"
    using g1 g2 by (rule createInventario_evaluates)
  from c show "fst (createInventario dc cparsed tc)
            = map_sum id (\<lambda>sc. (nuevo, sc)) (fst (evaluateStockCritical d2 (i_id nuevo) tc))" by simp
  from c show "snd (createInventario dc cparsed tc) = snd (evaluateStockCritical d2 (i_id nuevo) tc)"
    by simp
qed

theorem edit_evaluates_when_touched_witness:
  "updateInventario alertedStore 1 ubicacionEdit (sixHours + 1)
     = (Inr (\<lparr>i_id = 1, productoId = 0, codigo = Some ''INV-1'', stock = 2, minimo = 5,
              ubicacion = Some ''B-7''\<rparr>, Noop None),
        alertedStore\<lparr>inventarios := [\<lparr>i_id = 1, productoId = 0, codigo = Some ''INV-1'', stock = 2,
                                     minimo = 5, ubicacion = Some ''B-7''\<rparr>]\<rparr>)
   \<and> fst (updateInventario alertedStore 1 sameStockEdit (sixHours + 1))
       = Inr (\<lparr>i_id = 1, productoId = 0, codigo = Some ''INV-1'', stock = 2, minimo = 5,
               ubicacion = None\<rparr>, Resent 2)
   \<and> fst (createInventario sinInventario nuevoInventario 9)
       = Inr (\<lparr>i_id = 2, productoId = 0, codigo = Some ''INV-9'', stock = 2, minimo = 5,
               ubicacion = None\<rparr>, Created 3)"
proof -
  let ?cur = "\<lparr>i_id = 1, productoId = 0, codigo = Some ''INV-1'', stock = 2, minimo = 5,
                ubicacion = None\<rparr>"
  let ?actU = "\<lparr>i_id = 1, productoId = 0, codigo = Some ''INV-1'', stock = 2, minimo = 5,
                 ubicacion = Some ''B-7''\<rparr>"
  let ?nuevo = "\<lparr>i_id = 2, productoId = 0, codigo = Some ''INV-9'', stock = 2, minimo = 5,
                  ubicacion = None\<rparr>"
  let ?dU = "alertedStore\<lparr>inventarios := [?actU]\<rparr>"
  let ?dS = "alertedStore\<lparr>inventarios := [?cur]\<rparr>"
  let ?dC = "sinInventario\<lparr>inventarios := [?nuevo], nextId := 3\<rparr>"
  have f: "findInventario alertedStore 1 = Some ?cur" by code_simp
  have a: "assertProductoNoEsFlete alertedStore (productoId ?cur) = Inr ()" by code_simp
  have uU: "inventarioUpdateRow alertedStore 1 (normalizeInventarioUpdate ubicacionEdit) = Inr (?actU, ?dU)"
    by code_simp
  have uS: "inventarioUpdateRow alertedStore 1 (normalizeInventarioUpdate sameStockEdit) = Inr (?cur, ?dS)"
    by code_simp
  have ac: "assertProductoNoEsFlete sinInventario (c_productoId nuevoInventario) = Inr ()" by code_simp
  have c: "inventarioCreateRow sinInventario (c_productoId nuevoInventario)
             (emptyToNull (c_codigo nuevoInventario)) (emptyToNull (c_ubicacion nuevoInventario))
             (c_stock nuevoInventario) (c_minimo nuevoInventario) = Inr (?nuevo, ?dC)"
    by code_simp
  have eS: "fst (evaluateStockCritical ?dS 1 (sixHours + 1)) = Inr (Resent 2)" by code_simp
  have eC: "fst (evaluateStockCritical ?dC (i_id ?nuevo) 9) = Inr (Created 3)" by code_simp
  have nU: "b_stock ubicacionEdit = None" "b_minimo ubicacionEdit = None"
    by (simp_all add: ubicacionEdit_def)
  have nS: "b_stock sameStockEdit = Some 2" by (simp add: sameStockEdit_def)
  note th = edit_evaluates_when_touched[where dc = sinInventario and cparsed = nuevoInventario
      and nuevo = ?nuevo and ?d2.0 = ?dC and tc = 9 and d = alertedStore and iid = 1
      and current = ?cur and now = "sixHours + 1"]
  from th[where parsed = ubicacionEdit and actualizado = ?actU and ?d1.0 = ?dU]
       th[where parsed = sameStockEdit and actualizado = ?cur and ?d1.0 = ?dS]
       f a uU uS ac c nU nS eS eC
  show ?thesis by simp
qed

text \<open>
  An edit that sends the stock and the minimum the inventory already has changes
  neither, yet the evaluator runs: it resends the alert and writes a second notification.
\<close>

theorem edit_same_stock_counterexample:
  "map (\<lambda>i. (stock i, minimo i)) (inventarios alertedStore) = [(2, 5)]
   \<and> (b_stock sameStockEdit, b_minimo sameStockEdit) = (Some 2, Some 5)
   \<and> map (\<lambda>i. (stock i, minimo i))
        (inventarios (snd (updateInventario alertedStore 1 sameStockEdit (sixHours + 1)))) = [(2, 5)]
   \<and> map_sum id snd (fst (updateInventario alertedStore 1 sameStockEdit (sixHours + 1)))
       = Inr (Resent 2)
   \<and> length (notificaciones alertedStore) = 1
   \<and> length (notificaciones (snd (updateInventario alertedStore 1 sameStockEdit (sixHours + 1)))) = 2"
  by code_simp

section \<open>Bulk import: parsing a row\<close>

lemma toUpperCase_Nil [simp]: "toUpperCase s = [] \<longleftrightarrow> s = []"
  by (simp add: toUpperCase_def)

lemma normalizeSku_None: "normalizeSku raw = None \<longleftrightarrow> trim raw = []"
  by (simp add: normalizeSku_def Let_def split: option.splits)

lemma normalizeSku_not_empty: "normalizeSku raw \<noteq> Some []"
  by (simp add: normalizeSku_def Let_def split: option.splits)

lemma normalizeInvCode_None: "normalizeInvCode raw = None \<longleftrightarrow> trim raw = []"
  by (simp add: normalizeInvCode_def Let_def split: option.splits)

lemma normalizeInvCode_not_empty: "normalizeInvCode raw \<noteq> Some []"
  by (simp add: normalizeInvCode_def Let_def split: option.splits)

lemma mathTrunc_neg: "q < 0 \<Longrightarrow> mathTrunc q \<le> 0"
  by (simp add: mathTrunc_def ceiling_le_iff)

lemma toNonNegInt_zero: "negativeOrNotFinite n \<Longrightarrow> toNonNegInt n 0 = 0"
  using mathTrunc_neg
  by (cases n) (auto simp: toNonNegInt_def toInt_def negativeOrNotFinite_def Let_def dest: mathTrunc_neg)

lemma toNonNegMoney_zero: "negativeOrNotFinite n \<Longrightarrow> toNonNegMoney n 0 = 0"
  by (cases n) (auto simp: toNonNegMoney_def toInt_def negativeOrNotFinite_def Let_def dest: mathTrunc_neg)

lemma toNonNegInt_nonneg: "0 \<le> toNonNegInt n 0"
  by (simp add: toNonNegInt_def Let_def)

lemma toNonNegMoney_nonneg: "0 \<le> toNonNegMoney n 0"
  by (simp add: toNonNegMoney_def Let_def)

lemma parseImportRow_error_iff:
  "(\<exists>e. parseImportRow tipos obj = Inl e) \<longleftrightarrow>
     (trim (x_sku obj) = [] \<or> trim (x_nombre obj) = []
      \<or> mapTipoToPrismaEnum tipos (x_tipo obj) = None
      \<or> mapTipoToPrismaEnum tipos (x_tipo obj) = Some []
      \<or> (\<not> isFleteTipo (mapTipoToPrismaEnum tipos (x_tipo obj)) \<and> trim (x_codigo obj) = []))"
proof (cases "normalizeSku (x_sku obj)")
  case None
  then show ?thesis by (simp add: parseImportRow_def Let_def normalizeSku_None[symmetric])
next
  case (Some sk)
  then have sk: "sk \<noteq> []" "trim (x_sku obj) \<noteq> []"
    using normalizeSku_not_empty[of "x_sku obj"] normalizeSku_None[of "x_sku obj"] by auto
  show ?thesis
  proof (cases "mapTipoToPrismaEnum tipos (x_tipo obj)")
    case None
    with Some sk show ?thesis by (simp add: parseImportRow_def Let_def)
  next
    case tp: (Some tp)
    show ?thesis
    proof (cases "normalizeInvCode (x_codigo obj)")
      case None
      then have "trim (x_codigo obj) = []" by (simp add: normalizeInvCode_None)
      with Some sk tp None show ?thesis by (simp add: parseImportRow_def Let_def)
    next
      case cod: (Some c)
      then have "c \<noteq> []" "trim (x_codigo obj) \<noteq> []"
        using normalizeInvCode_not_empty[of "x_codigo obj"] normalizeInvCode_None[of "x_codigo obj"]
        by auto
      with Some sk tp cod show ?thesis by (simp add: parseImportRow_def Let_def)
    qed
  qed
qed

lemma parseImportRow_numbers:
  "parseImportRow tipos (obj\<lparr>x_precio := p, x_stock := s, x_minimo := m\<rparr>)
     = map_sum id (\<lambda>row. row\<lparr>w_precio := toNonNegMoney p 0, w_stock := toNonNegInt s 0,
                              w_minimo := toNonNegInt m 0\<rparr>)
         (parseImportRow tipos obj)"
  by (auto simp: parseImportRow_def Let_def split: option.splits)

lemma parseImportRow_fields:
  "parseImportRow tipos obj = Inr row \<Longrightarrow>
     w_precio row = toNonNegMoney (x_precio obj) 0 \<and> w_stock row = toNonNegInt (x_stock obj) 0
     \<and> w_minimo row = toNonNegInt (x_minimo obj) 0"
  by (auto simp: parseImportRow_def Let_def split: option.splits if_splits)

text \<open>
  C10. Parsing a sheet row fails exactly when the sku is missing, the name is missing,
  the type maps to no enum value, or the code is missing on a row that is not freight.
  The numeric cells never decide it: replacing price, stock and minimum by any values
  gives the same error or the same row with only those three fields recomputed, and a
  value that is negative or not a finite number is read as 0.
\<close>

theorem import_numbers_never_row_errors:
  "((\<exists>e. parseImportRow tipos obj = Inl e) \<longleftrightarrow>
      (trim (x_sku obj) = [] \<or> trim (x_nombre obj) = []
       \<or> mapTipoToPrismaEnum tipos (x_tipo obj) = None
       \<or> mapTipoToPrismaEnum tipos (x_tipo obj) = Some []
       \<or> (\<not> isFleteTipo (mapTipoToPrismaEnum tipos (x_tipo obj)) \<and> trim (x_codigo obj) = [])))
   \<and> parseImportRow tipos (obj\<lparr>x_precio := p, x_stock := s, x_minimo := m\<rparr>)
       = map_sum id (\<lambda>row. row\<lparr>w_precio := toNonNegMoney p 0, w_stock := toNonNegInt s 0,
                                w_minimo := toNonNegInt m 0\<rparr>)
           (parseImportRow tipos obj)
   \<and> (negativeOrNotFinite p \<longrightarrow> toNonNegMoney p 0 = 0)
   \<and> (negativeOrNotFinite s \<longrightarrow> toNonNegInt s 0 = 0)
   \<and> (negativeOrNotFinite m \<longrightarrow> toNonNegInt m 0 = 0)"
  using parseImportRow_error_iff[of tipos obj] parseImportRow_numbers[where tipos = tipos and obj = obj and p = p and s = s and m = m]
    toNonNegInt_zero toNonNegMoney_zero
  by blast

theorem import_numbers_never_row_errors_witness:
  "parseImportRow demoTipos badNumbersRow
     = Inr \<lparr>w_sku = ''SKU-7'', w_codigo = Some ''INV-7'', w_nombre = ''Golilla'',
            w_tipo = ''Producto'', w_precio = 0, w_stock = 0, w_minimo = 0, w_fotoUrl = None\<rparr>"
proof -
  let ?good = "badNumbersRow\<lparr>x_precio := Fin 10, x_stock := Fin 3, x_minimo := Fin 1\<rparr>"
  have bad: "?good\<lparr>x_precio := NegInfinity, x_stock := Fin (- 4), x_minimo := NaN\<rparr> = badNumbersRow"
    by (simp add: badNumbersRow_def)
  have g: "parseImportRow demoTipos ?good
     = Inr \<lparr>w_sku = ''SKU-7'', w_codigo = Some ''INV-7'', w_nombre = ''Golilla'',
            w_tipo = ''Producto'', w_precio = 10, w_stock = 3, w_minimo = 1, w_fotoUrl = None\<rparr>"
    by code_simp
  have n: "negativeOrNotFinite NegInfinity" "negativeOrNotFinite (Fin (- 4))" "negativeOrNotFinite NaN"
    by (simp_all add: negativeOrNotFinite_def)
  from import_numbers_never_row_errors[where tipos = demoTipos and obj = ?good
         and p = NegInfinity and s = "Fin (- 4)" and m = NaN] n
  have "parseImportRow demoTipos (?good\<lparr>x_precio := NegInfinity, x_stock := Fin (- 4), x_minimo := NaN\<rparr>)
     = map_sum id (\<lambda>row. row\<lparr>w_precio := 0, w_stock := 0, w_minimo := 0\<rparr>)
         (parseImportRow demoTipos ?good)"
    by simp
  then show ?thesis unfolding bad g by simp
qed

section \<open>Bulk import: one row at a time\<close>

lemma importStep_failure:
  assumes "rowFailure tipos now raw d = Some e"
  shows "importStep tipos now i raw (d, rep) = (d, rep\<lparr>errores := errores rep @ [(i + 2, e)]\<rparr>)"
  using assms
  by (auto simp: importStep_def rowFailure_def transaction_def Let_def split: sum.splits prod.splits)

lemma importStep_success:
  assumes "rowFailure tipos now raw d = None"
  shows "\<exists>row flags d'. parseImportRow tipos raw = Inr row
           \<and> importRowTx row now d = Inr (flags, d')
           \<and> importStep tipos now i raw (d, rep)
               = (d', rep\<lparr>createdProductos := bump (productoCreated flags) (createdProductos rep),
                        updatedProductos := bump (productoUpdated flags) (updatedProductos rep),
                        createdInventarios := bump (invCreated flags) (createdInventarios rep),
                        updatedInventarios := bump (invUpdated flags) (updatedInventarios rep)\<rparr>)"
  using assms
  by (auto simp: importStep_def rowFailure_def transaction_def Let_def split: sum.splits prod.splits)

lemma importRowTx_flags:
  assumes "importRowTx row now d = Inr (flags, d')"
  shows "productoCreated flags \<noteq> productoUpdated flags
       \<and> \<not> (invCreated flags \<and> invUpdated flags)"
proof -
  from assms obtain prd tx1 where
    up: "productoUpsert d row (find (\<lambda>p. p_sku p = Some (w_sku row)) (productos d)) = Inr (prd, tx1)"
    by (rule importRowTx_upsert)
  with assms show ?thesis
    by (auto simp: importRowTx_def Let_def split: if_splits option.splits sum.splits)
qed

lemma importStep_accounted:
  "rowsAccounted (snd (importStep tipos now i raw (d, rep))) = rowsAccounted rep + 1"
proof (cases "rowFailure tipos now raw d")
  case (Some e)
  then show ?thesis by (simp add: importStep_failure rowsAccounted_def)
next
  case None
  from importStep_success[OF None, of i rep] obtain row flags d' where
    tx: "importRowTx row now d = Inr (flags, d')"
    and st: "importStep tipos now i raw (d, rep)
               = (d', rep\<lparr>createdProductos := bump (productoCreated flags) (createdProductos rep),
                        updatedProductos := bump (productoUpdated flags) (updatedProductos rep),
                        createdInventarios := bump (invCreated flags) (createdInventarios rep),
                        updatedInventarios := bump (invUpdated flags) (updatedInventarios rep)\<rparr>)"
    by blast
  from importRowTx_flags[OF tx] st show ?thesis
    by (auto simp: rowsAccounted_def bump_def)
qed

lemma importLoop_accounted:
  "rowsAccounted (snd (importLoop tipos clock i rows st)) = rowsAccounted (snd st) + length rows"
proof (induction rows arbitrary: i st)
  case Nil
  then show ?case by simp
next
  case (Cons raw rest)
  obtain d rep where st: "st = (d, rep)" by (cases st)
  show ?case
    by (simp add: Cons.IH st importStep_accounted)
qed

lemma importLoop_append:
  "importLoop tipos clock i (xs @ ys) st
     = importLoop tipos clock (i + length xs) ys (importLoop tipos clock i xs st)"
  by (induction xs arbitrary: i st) simp_all

text \<open>
  C9. When the row at index \<open>length xs\<close> of a sheet fails, in parsing or in its
  transaction, on the store the rows before it have left, the import goes on with the
  rows after it from that very store, and the report gets the one entry
  \<open>(length xs + 2, e)\<close> and is otherwise as it was: the rows before keep their writes,
  the failed row leaves none. In every report the error entries and the products created
  or updated together count the rows of the sheet.
\<close>

theorem import_row_failure_isolated:
  assumes "rowFailure tipos (clock (length xs)) raw
             (fst (importLoop tipos clock 0 xs (d, emptyReport))) = Some e"
  shows "importLoop tipos clock 0 (xs @ raw # ys) (d, emptyReport)
           = importLoop tipos clock (length xs + 1) ys
               (fst (importLoop tipos clock 0 xs (d, emptyReport)),
                (snd (importLoop tipos clock 0 xs (d, emptyReport)))
                  \<lparr>errores := errores (snd (importLoop tipos clock 0 xs (d, emptyReport)))
                               @ [(length xs + 2, e)]\<rparr>)
       \<and> rowsAccounted (snd (importLoop tipos clock 0 (xs @ raw # ys) (d, emptyReport)))
           = length (xs @ raw # ys)"
proof -
  obtain d1 rep1 where st: "importLoop tipos clock 0 xs (d, emptyReport) = (d1, rep1)"
    by (cases "importLoop tipos clock 0 xs (d, emptyReport)")
  with assms have f: "rowFailure tipos (clock (length xs)) raw d1 = Some e" by simp
  have "importLoop tipos clock 0 (xs @ raw # ys) (d, emptyReport)
          = importLoop tipos clock (length xs) (raw # ys) (d1, rep1)"
    by (simp add: importLoop_append st)
  also have "\<dots> = importLoop tipos clock (length xs + 1) ys
                     (d1, rep1\<lparr>errores := errores rep1 @ [(length xs + 2, e)]\<rparr>)"
    by (simp add: importStep_failure[OF f])
  finally have 1: "importLoop tipos clock 0 (xs @ raw # ys) (d, emptyReport)
          = importLoop tipos clock (length xs + 1) ys
                     (d1, rep1\<lparr>errores := errores rep1 @ [(length xs + 2, e)]\<rparr>)" .
  have 2: "rowsAccounted (snd (importLoop tipos clock 0 (xs @ raw # ys) (d, emptyReport)))
           = length (xs @ raw # ys)"
    by (simp only: importLoop_accounted) (simp add: rowsAccounted_def emptyReport_def)
  from 1 2 st show ?thesis by simp
qed

theorem import_row_failure_isolated_witness:
  "snd (importLoop demoTipos (\<lambda>i. 0) 0 demoSheet (emptyStore, emptyReport))
     = \<lparr>errores = [(3, TipoInvalido), (4, Duplicado)], createdProductos = 2,
        updatedProductos = 0, createdInventarios = 2, updatedInventarios = 0\<rparr>
   \<and> map p_sku (productos (fst (importLoop demoTipos (\<lambda>i. 0) 0 demoSheet (emptyStore, emptyReport))))
       = [Some ''SKU-1'', Some ''SKU-4'']
   \<and> rowsAccounted (snd (importLoop demoTipos (\<lambda>i. 0) 0 demoSheet (emptyStore, emptyReport))) = 4"
proof -
  let ?xs = "[sheetRow ''1'' ''INV-1'' ''Producto'', sheetRow ''2'' ''INV-2'' ''xyz'']"
  let ?raw = "sheetRow ''3'' ''INV-1'' ''Producto''"
  let ?ys = "[sheetRow ''4'' ''INV-4'' ''Producto'']"
  let ?st = "importLoop demoTipos (\<lambda>i. 0) 0 ?xs (emptyStore, emptyReport)"
  let ?rest = "importLoop demoTipos (\<lambda>i. 0) (length ?xs + 1) ?ys
                 (fst ?st, (snd ?st)\<lparr>errores := errores (snd ?st) @ [(length ?xs + 2, Duplicado)]\<rparr>)"
  have sheet: "demoSheet = ?xs @ ?raw # ?ys" by (simp add: demoSheet_def)
  have h: "rowFailure demoTipos 0 ?raw (fst ?st) = Some Duplicado" by code_simp
  have r1: "snd ?rest = \<lparr>errores = [(3, TipoInvalido), (4, Duplicado)], createdProductos = 2,
        updatedProductos = 0, createdInventarios = 2, updatedInventarios = 0\<rparr>"
    by code_simp
  have r2: "map p_sku (productos (fst ?rest)) = [Some ''SKU-1'', Some ''SKU-4'']" by code_simp
  note th = import_row_failure_isolated[where tipos = demoTipos and clock = "\<lambda>i. 0"
        and xs = ?xs and raw = ?raw and ys = ?ys and d = emptyStore and e = Duplicado, OF h]
  have eq: "importLoop demoTipos (\<lambda>i. 0) 0 demoSheet (emptyStore, emptyReport) = ?rest"
    unfolding sheet by (rule th[THEN conjunct1])
  have four: "length (?xs @ ?raw # ?ys) = 4" by simp
  have acc: "rowsAccounted (snd (importLoop demoTipos (\<lambda>i. 0) 0 demoSheet (emptyStore, emptyReport))) = 4"
    unfolding sheet using th[THEN conjunct2] four by (rule trans)
  have g1: "snd (importLoop demoTipos (\<lambda>i. 0) 0 demoSheet (emptyStore, emptyReport))
     = \<lparr>errores = [(3, TipoInvalido), (4, Duplicado)], createdProductos = 2,
        updatedProductos = 0, createdInventarios = 2, updatedInventarios = 0\<rparr>"
    by (simp only: eq r1)
  have g2: "map p_sku (productos (fst (importLoop demoTipos (\<lambda>i. 0) 0 demoSheet (emptyStore, emptyReport))))
       = [Some ''SKU-1'', Some ''SKU-4'']"
    by (simp only: eq r2)
  from g1 g2 acc show ?thesis by (intro conjI)
qed

end
